theory Spec2Isabelle
  imports Complex_Main "HOL-Library.Multiset"
begin

section \<open>Data model (core/enums.py, core/models.py)\<close>

text \<open>
  The enums of \<^verbatim>\<open>core/enums.py\<close> are closed datatypes. A naive \<^verbatim>\<open>datetime\<close> is a point
  on a totally ordered time line, taken here as an integer count of microseconds.
  A Python \<^verbatim>\<open>float\<close> column is only stored and read back by the data-access
  functions, never computed with, and is carried as a real number.
\<close>

datatype Exchange = NSE | BSE
datatype TipType = INTRADAY | OPTIONS | SWING
datatype ActionType = BUY | SELL | HOLD

type_synonym datetime = int
type_synonym float = real

text \<open>
  One record per mapped class of \<^verbatim>\<open>core/models.py\<close>. The five classes share column
  names (\<^verbatim>\<open>id\<close>, \<^verbatim>\<open>stock_id\<close>, \<^verbatim>\<open>timestamp\<close>, \<^verbatim>\<open>volume\<close>, \<^verbatim>\<open>stock_symbol\<close>),
  so every field carries the initials of its class: \<open>s_\<close> for Stock, \<open>hp_\<close> for
  HistoricalPrice, \<open>lp_\<close> for LivePrice, \<open>sd_\<close> for SentimentData, \<open>tt_\<close> for
  TradingTip. The primary key of an object is \<open>None\<close> until the object is flushed;
  nullable columns are options, the others are not.
\<close>

record Stock =
  s_id :: "int option"
  s_symbol :: string
  s_name :: string
  s_exchange :: Exchange

record HistoricalPrice =
  hp_id :: "int option"
  hp_stock_id :: int
  hp_date :: datetime
  hp_open :: float
  hp_high :: float
  hp_low :: float
  hp_close :: float
  hp_volume :: int

record LivePrice =
  lp_id :: "int option"
  lp_stock_id :: int
  lp_timestamp :: datetime
  lp_price :: float
  lp_volume :: int

record SentimentData =
  sd_id :: "int option"
  sd_source :: string
  sd_timestamp :: datetime
  sd_text :: "string option"
  sd_sentiment_score :: float
  sd_stock_symbol :: "string option"

record TradingTip =
  tt_id :: "int option"
  tt_timestamp :: datetime
  tt_stock_symbol :: string
  tt_tip_type :: TipType
  tt_action :: ActionType
  tt_reason :: string
  tt_confidence_score :: "float option"

section \<open>The session and the storage engine\<close>

text \<open>
  The tables hold their rows in insertion order. A session is the database it is bound
  to together with the objects staged by \<^verbatim>\<open>db.add\<close> and not yet flushed. The sessions
  of \<^verbatim>\<open>data/database.py\<close> are made with \<^verbatim>\<open>autoflush=False\<close>, so a query reads the
  tables only and never the staged objects.
\<close>

datatype entity =
    EStock Stock
  | EHistoricalPrice HistoricalPrice
  | ELivePrice LivePrice
  | ESentimentData SentimentData
  | ETradingTip TradingTip

record database =
  stocks :: "Stock list"
  historical_prices :: "HistoricalPrice list"
  live_prices :: "LivePrice list"
  sentiment_data :: "SentimentData list"
  trading_tips :: "TradingTip list"

record session =
  store :: database
  pending :: "entity list"

datatype violation = PrimaryKey | UniqueStockSymbol

datatype error = IntegrityError violation | InvalidRequestError

definition add :: "session \<Rightarrow> entity \<Rightarrow> session" where
  "add db obj = db\<lparr>pending := pending db @ [obj]\<rparr>"

definition add_all :: "session \<Rightarrow> entity list \<Rightarrow> session" where
  "add_all db objs = db\<lparr>pending := pending db @ objs\<rparr>"

text \<open>
  An integer primary key that is not supplied is generated by the engine: 1 in an empty
  table, otherwise one more than the largest key in use. A supplied key must not be in
  use.
\<close>

definition next_id :: "int list \<Rightarrow> int" where
  "next_id used = (case used of [] \<Rightarrow> 1 | i # is \<Rightarrow> fold max is i + 1)"

definition assign_id :: "int list \<Rightarrow> int option \<Rightarrow> error + int" where
  "assign_id used given =
     (case given of
        None \<Rightarrow> Inr (next_id used)
      | Some i \<Rightarrow> if i \<in> set used then Inl (IntegrityError PrimaryKey) else Inr i)"

text \<open>
  One INSERT. The row is appended with its key, or the statement fails on a constraint
  of the table: the primary key of each table, and \<^verbatim>\<open>unique=True\<close> of
  \<^verbatim>\<open>Stock.symbol\<close>. The result carries the object as it is after the statement (its
  key filled in) and the table contents.
\<close>

fun insert_entity :: "database \<Rightarrow> entity \<Rightarrow> error + entity \<times> database" where
  "insert_entity d (EStock x) =
     (case assign_id (List.map_filter s_id (stocks d)) (s_id x) of
        Inl e \<Rightarrow> Inl e
      | Inr i \<Rightarrow>
          if s_symbol x \<in> set (map s_symbol (stocks d))
          then Inl (IntegrityError UniqueStockSymbol)
          else Inr (EStock (x\<lparr>s_id := Some i\<rparr>),
                    d\<lparr>stocks := stocks d @ [x\<lparr>s_id := Some i\<rparr>]\<rparr>))"
| "insert_entity d (EHistoricalPrice x) =
     (case assign_id (List.map_filter hp_id (historical_prices d)) (hp_id x) of
        Inl e \<Rightarrow> Inl e
      | Inr i \<Rightarrow>
          Inr (EHistoricalPrice (x\<lparr>hp_id := Some i\<rparr>),
               d\<lparr>historical_prices := historical_prices d @ [x\<lparr>hp_id := Some i\<rparr>]\<rparr>))"
| "insert_entity d (ELivePrice x) =
     (case assign_id (List.map_filter lp_id (live_prices d)) (lp_id x) of
        Inl e \<Rightarrow> Inl e
      | Inr i \<Rightarrow>
          Inr (ELivePrice (x\<lparr>lp_id := Some i\<rparr>),
               d\<lparr>live_prices := live_prices d @ [x\<lparr>lp_id := Some i\<rparr>]\<rparr>))"
| "insert_entity d (ESentimentData x) =
     (case assign_id (List.map_filter sd_id (sentiment_data d)) (sd_id x) of
        Inl e \<Rightarrow> Inl e
      | Inr i \<Rightarrow>
          Inr (ESentimentData (x\<lparr>sd_id := Some i\<rparr>),
               d\<lparr>sentiment_data := sentiment_data d @ [x\<lparr>sd_id := Some i\<rparr>]\<rparr>))"
| "insert_entity d (ETradingTip x) =
     (case assign_id (List.map_filter tt_id (trading_tips d)) (tt_id x) of
        Inl e \<Rightarrow> Inl e
      | Inr i \<Rightarrow>
          Inr (ETradingTip (x\<lparr>tt_id := Some i\<rparr>),
               d\<lparr>trading_tips := trading_tips d @ [x\<lparr>tt_id := Some i\<rparr>]\<rparr>))"

text \<open>
  The flush inserts the staged objects in the order they were added and stops at the
  first statement that fails.
\<close>

fun flush :: "database \<Rightarrow> entity list \<Rightarrow> error + entity list \<times> database" where
  "flush d [] = Inr ([], d)"
| "flush d (obj # objs) =
     (case insert_entity d obj of
        Inl e \<Rightarrow> Inl e
      | Inr (obj', d') \<Rightarrow>
          (case flush d' objs of
             Inl e \<Rightarrow> Inl e
           | Inr (objs', d'') \<Rightarrow> Inr (obj' # objs', d'')))"

text \<open>
  \<^verbatim>\<open>db.commit()\<close> flushes every staged object in one transaction. When a statement
  fails the transaction is rolled back, the staged objects are expunged and the error
  is raised. Otherwise the tables are replaced by the result and nothing stays staged;
  the objects, now with their keys, are returned in the order they were added (in
  Python they are updated in place).
\<close>

definition commit :: "session \<Rightarrow> (error + entity list) \<times> session" where
  "commit db =
     (case flush (store db) (pending db) of
        Inl e \<Rightarrow> (Inl e, db\<lparr>pending := []\<rparr>)
      | Inr (objs, d) \<Rightarrow> (Inr objs, \<lparr>store = d, pending = []\<rparr>))"

text \<open>
  \<^verbatim>\<open>db.refresh(obj)\<close> reads the row of \<open>obj\<close> back by its primary key.
\<close>

definition refresh_stock :: "session \<Rightarrow> entity \<Rightarrow> error + Stock" where
  "refresh_stock db obj =
     (case obj of
        EStock x \<Rightarrow>
          (case find (\<lambda>r. s_id r = s_id x) (stocks (store db)) of
             Some r \<Rightarrow> Inr r
           | None \<Rightarrow> Inl InvalidRequestError)
      | _ \<Rightarrow> Inl InvalidRequestError)"

subsection \<open>Query building blocks\<close>

text \<open>
  \<^verbatim>\<open>order_by\<close> is a stable sort of the rows in table order (the order among equal
  keys is the engine's choice; the rowid order is the one taken here). OFFSET and LIMIT
  take Python integers; the default engine of \<^verbatim>\<open>data/database.py\<close> is SQLite, where a
  negative OFFSET counts as zero and a negative LIMIT is no limit. \<^verbatim>\<open>first()\<close> is the
  first row of the result or \<^verbatim>\<open>None\<close>.
\<close>

definition order_by :: "('a \<Rightarrow> int) \<Rightarrow> 'a list \<Rightarrow> 'a list" where
  "order_by key rows = sort_key key rows"

definition order_by_desc :: "('a \<Rightarrow> int) \<Rightarrow> 'a list \<Rightarrow> 'a list" where
  "order_by_desc key rows = sort_key (\<lambda>r. - key r) rows"

definition offset_rows :: "int \<Rightarrow> 'a list \<Rightarrow> 'a list" where
  "offset_rows k rows = drop (nat k) rows"

definition limit_rows :: "int \<Rightarrow> 'a list \<Rightarrow> 'a list" where
  "limit_rows n rows = (if n < 0 then rows else take (nat n) rows)"

definition first :: "'a list \<Rightarrow> 'a option" where
  "first rows = (case rows of [] \<Rightarrow> None | r # _ \<Rightarrow> Some r)"

subsection \<open>Python strings\<close>

text \<open>
  Symbols are ASCII text: \<^verbatim>\<open>str.upper\<close> maps the letters a to z to A to Z and leaves
  every other character as it is. An \<^verbatim>\<open>Optional[str]\<close> is falsy when it is \<^verbatim>\<open>None\<close>
  or the empty string.
\<close>

definition upper_char :: "char \<Rightarrow> char" where
  "upper_char c =
     (let n = (of_char c :: nat) in if 97 \<le> n \<and> n \<le> 122 then char_of (n - 32) else c)"

definition upper :: "string \<Rightarrow> string" where
  "upper s = map upper_char s"

definition truthy :: "string option \<Rightarrow> bool" where
  "truthy s = (case s of None \<Rightarrow> False | Some t \<Rightarrow> t \<noteq> [])"

section \<open>Data-access functions (data/crud.py)\<close>

subsection \<open>Stock\<close>


text \<open>Defaults: \<^verbatim>\<open>skip=0\<close>, \<^verbatim>\<open>limit=100\<close>.\<close>

definition get_stocks :: "session \<Rightarrow> int \<Rightarrow> int \<Rightarrow> Stock list" where
  "get_stocks db skip limit = limit_rows limit (offset_rows skip (stocks (store db)))"

text \<open>
  \<^verbatim>\<open>create_stock\<close> adds its object last, so after the commit it is the last of the
  flushed objects; \<^verbatim>\<open>db.refresh(db_stock)\<close> then reads its row back.
\<close>

definition create_stock ::
  "session \<Rightarrow> string \<Rightarrow> string \<Rightarrow> Exchange \<Rightarrow> (error + Stock) \<times> session" where
  "create_stock db symbol name exchange =
     (let db_stock = \<lparr>s_id = None, s_symbol = upper symbol, s_name = name,
                      s_exchange = exchange\<rparr>
      in case commit (add db (EStock db_stock)) of
           (Inl e, db') \<Rightarrow> (Inl e, db')
         | (Inr objs, db') \<Rightarrow>
             (case rev objs of
                [] \<Rightarrow> (Inl InvalidRequestError, db')
              | obj # _ \<Rightarrow> (refresh_stock db' obj, db')))"

subsection \<open>HistoricalPrice\<close>

definition create_historical_price ::
  "session \<Rightarrow> int \<Rightarrow> datetime \<Rightarrow> float \<Rightarrow> float \<Rightarrow> float \<Rightarrow> float \<Rightarrow> int
     \<Rightarrow> HistoricalPrice \<times> session" where
  "create_historical_price db stock_id date open_price high_price low_price close_price volume =
     (let db_price = \<lparr>hp_id = None, hp_stock_id = stock_id, hp_date = date,
                      hp_open = open_price, hp_high = high_price, hp_low = low_price,
                      hp_close = close_price, hp_volume = volume\<rparr>
      in (db_price, add db (EHistoricalPrice db_price)))"

definition add_historical_prices_bulk ::
  "session \<Rightarrow> HistoricalPrice list \<Rightarrow> (error + unit) \<times> session" where
  "add_historical_prices_bulk db prices =
     (case commit (add_all db (map EHistoricalPrice prices)) of
        (Inl e, db') \<Rightarrow> (Inl e, db')
      | (Inr _, db') \<Rightarrow> (Inr (), db'))"

text \<open>Defaults: \<^verbatim>\<open>skip=0\<close>, \<^verbatim>\<open>limit=1000\<close>.\<close>

definition get_historical_prices ::
  "session \<Rightarrow> int \<Rightarrow> datetime \<Rightarrow> datetime \<Rightarrow> int \<Rightarrow> int \<Rightarrow> HistoricalPrice list" where
  "get_historical_prices db stock_id start_date end_date skip limit =
     limit_rows limit (offset_rows skip (order_by hp_date
       (filter (\<lambda>r. hp_stock_id r = stock_id \<and> hp_date r \<ge> start_date \<and> hp_date r \<le> end_date)
          (historical_prices (store db)))))"

subsection \<open>LivePrice\<close>

text \<open>
  \<^verbatim>\<open>datetime.datetime.utcnow()\<close> is the reading \<open>now\<close> of the clock, an input of the
  call. A \<^verbatim>\<open>datetime\<close> is always truthy, so \<^verbatim>\<open>timestamp or utcnow()\<close> is the
  timestamp when one is given.
\<close>

definition create_live_price ::
  "datetime \<Rightarrow> session \<Rightarrow> int \<Rightarrow> float \<Rightarrow> int \<Rightarrow> datetime option \<Rightarrow> LivePrice \<times> session" where
  "create_live_price now db stock_id price volume timestamp =
     (let db_price = \<lparr>lp_id = None, lp_stock_id = stock_id,
                      lp_timestamp = (case timestamp of Some t \<Rightarrow> t | None \<Rightarrow> now),
                      lp_price = price, lp_volume = volume\<rparr>
      in (db_price, add db (ELivePrice db_price)))"

definition add_live_prices_bulk ::
  "session \<Rightarrow> LivePrice list \<Rightarrow> (error + unit) \<times> session" where
  "add_live_prices_bulk db prices =
     (case commit (add_all db (map ELivePrice prices)) of
        (Inl e, db') \<Rightarrow> (Inl e, db')
      | (Inr _, db') \<Rightarrow> (Inr (), db'))"

definition get_latest_live_price :: "session \<Rightarrow> int \<Rightarrow> LivePrice option" where
  "get_latest_live_price db stock_id =
     first (order_by_desc lp_timestamp
       (filter (\<lambda>r. lp_stock_id r = stock_id) (live_prices (store db))))"

subsection \<open>SentimentData\<close>

definition create_sentiment_data ::
  "datetime \<Rightarrow> session \<Rightarrow> string \<Rightarrow> string option \<Rightarrow> float \<Rightarrow> string option
     \<Rightarrow> datetime option \<Rightarrow> SentimentData \<times> session" where
  "create_sentiment_data now db source text sentiment_score stock_symbol timestamp =
     (let db_sentiment =
            \<lparr>sd_id = None, sd_source = source,
             sd_timestamp = (case timestamp of Some t \<Rightarrow> t | None \<Rightarrow> now),
             sd_text = text, sd_sentiment_score = sentiment_score,
             sd_stock_symbol =
               (if truthy stock_symbol then map_option upper stock_symbol else None)\<rparr>
      in (db_sentiment, add db (ESentimentData db_sentiment)))"

definition add_sentiment_data_bulk ::
  "session \<Rightarrow> SentimentData list \<Rightarrow> (error + unit) \<times> session" where
  "add_sentiment_data_bulk db sentiments =
     (case commit (add_all db (map ESentimentData sentiments)) of
        (Inl e, db') \<Rightarrow> (Inl e, db')
      | (Inr _, db') \<Rightarrow> (Inr (), db'))"

text \<open>
  Defaults: no symbol, no dates, \<^verbatim>\<open>limit=100\<close>. Each filter is applied when its
  argument is truthy. A row whose \<^verbatim>\<open>stock_symbol\<close> is NULL matches no symbol.
\<close>

definition get_sentiment_data ::
  "session \<Rightarrow> string option \<Rightarrow> datetime option \<Rightarrow> datetime option \<Rightarrow> int
     \<Rightarrow> SentimentData list" where
  "get_sentiment_data db stock_symbol start_date end_date limit =
     (let query = sentiment_data (store db);
          query = (if truthy stock_symbol
                   then filter (\<lambda>r. sd_stock_symbol r = map_option upper stock_symbol) query
                   else query);
          query = (case start_date of
                     Some t \<Rightarrow> filter (\<lambda>r. sd_timestamp r \<ge> t) query
                   | None \<Rightarrow> query);
          query = (case end_date of
                     Some t \<Rightarrow> filter (\<lambda>r. sd_timestamp r \<le> t) query
                   | None \<Rightarrow> query)
      in limit_rows limit (order_by_desc sd_timestamp query))"

subsection \<open>TradingTip\<close>

definition create_trading_tip ::
  "datetime \<Rightarrow> session \<Rightarrow> string \<Rightarrow> TipType \<Rightarrow> ActionType \<Rightarrow> string \<Rightarrow> float option
     \<Rightarrow> datetime option \<Rightarrow> TradingTip \<times> session" where
  "create_trading_tip now db stock_symbol tip_type action reason confidence_score timestamp =
     (let db_tip = \<lparr>tt_id = None,
                    tt_timestamp = (case timestamp of Some t \<Rightarrow> t | None \<Rightarrow> now),
                    tt_stock_symbol = upper stock_symbol, tt_tip_type = tip_type,
                    tt_action = action, tt_reason = reason,
                    tt_confidence_score = confidence_score\<rparr>
      in (db_tip, add db (ETradingTip db_tip)))"

definition add_trading_tips_bulk ::
  "session \<Rightarrow> TradingTip list \<Rightarrow> (error + unit) \<times> session" where
  "add_trading_tips_bulk db tips =
     (case commit (add_all db (map ETradingTip tips)) of
        (Inl e, db') \<Rightarrow> (Inl e, db')
      | (Inr _, db') \<Rightarrow> (Inr (), db'))"

text \<open>Defaults: no symbol, \<^verbatim>\<open>limit=20\<close>, \<^verbatim>\<open>page=1\<close>.\<close>

definition get_trading_tips ::
  "session \<Rightarrow> string option \<Rightarrow> int \<Rightarrow> int \<Rightarrow> TradingTip list" where
  "get_trading_tips db stock_symbol limit page =
     (let query = trading_tips (store db);
          query = (if truthy stock_symbol
                   then filter (\<lambda>r. Some (tt_stock_symbol r) = map_option upper stock_symbol) query
                   else query);
          offset = (page - 1) * limit
      in limit_rows limit (offset_rows offset (order_by_desc tt_timestamp query)))"

subsection \<open>A fresh database\<close>

text \<open>
  The state right after \<^verbatim>\<open>init_db()\<close> on a new file: every table exists and is empty,
  and a new session has nothing staged.
\<close>

definition empty_database :: database where
  "empty_database =
     \<lparr>stocks = [], historical_prices = [], live_prices = [], sentiment_data = [],
      trading_tips = []\<rparr>"

definition empty_session :: session where
  "empty_session = \<lparr>store = empty_database, pending = []\<rparr>"

text \<open>
  Test data: \<open>n\<close> daily bars of stock 1, with the keys 1 to \<open>n\<close> and the dates 0 to
  \<open>n - 1\<close> (days counted from the first bar).
\<close>

definition daily_bars :: "nat \<Rightarrow> HistoricalPrice list" where
  "daily_bars n =
     map (\<lambda>k. \<lparr>hp_id = Some (int k + 1), hp_stock_id = 1, hp_date = int k, hp_open = 0,
                hp_high = 0, hp_low = 0, hp_close = 0, hp_volume = 0\<rparr>) [0..<n]"

text \<open>
  Test data: a session on a database that holds one row, with the key 1, in each of the
  four tables filled by the bulk inserts.
\<close>

definition one_row_session :: session where
  "one_row_session =
     \<lparr>store =
        \<lparr>stocks = [],
         historical_prices =
           [\<lparr>hp_id = Some 1, hp_stock_id = 1, hp_date = 1, hp_open = 1, hp_high = 2, hp_low = 1,
          hp_close = 2, hp_volume = 10\<rparr>],
         live_prices =
           [\<lparr>lp_id = Some 1, lp_stock_id = 1, lp_timestamp = 1, lp_price = 2, lp_volume = 10\<rparr>],
         sentiment_data =
           [\<lparr>sd_id = Some 1, sd_source = ''NewsAPI'', sd_timestamp = 1, sd_text = None,
          sd_sentiment_score = 0, sd_stock_symbol = Some ''INFY''\<rparr>],
         trading_tips =
           [\<lparr>tt_id = Some 1, tt_timestamp = 1, tt_stock_symbol = ''INFY'', tt_tip_type = SWING,
          tt_action = BUY, tt_reason = ''r'', tt_confidence_score = None\<rparr>]\<rparr>,
      pending = []\<rparr>"

section \<open>Facts about the storage engine\<close>

lemma next_id_fresh: "next_id used \<notin> set used"
proof (cases used)
  case Nil
  then show ?thesis by simp
next
  case (Cons i rest)
  have "next_id used = Max (set used) + 1"
    unfolding Cons next_id_def by (simp add: Max.set_eq_fold del: set_simps)
  moreover have "\<forall>x \<in> set used. x \<le> Max (set used)"
    by simp
  ultimately show ?thesis by fastforce
qed

lemma flush_append:
  "flush d (objs @ [obj]) =
     (case flush d objs of
        Inl e \<Rightarrow> Inl e
      | Inr (objs', d') \<Rightarrow>
          (case insert_entity d' obj of
             Inl e \<Rightarrow> Inl e
           | Inr (obj', d'') \<Rightarrow> Inr (objs' @ [obj'], d'')))"
  by (induction objs arbitrary: d) (auto split: sum.splits prod.splits)

lemma find_append_fresh:
  "\<forall>r \<in> set rows. \<not> P r \<Longrightarrow> P x \<Longrightarrow> find P (rows @ [x]) = Some x"
  by (induction rows) auto


lemma assign_id_fresh: "assign_id used given = Inr i \<Longrightarrow> i \<notin> set used"
  using next_id_fresh by (auto simp: assign_id_def split: option.splits if_splits)

lemma map_filter_fresh:
  "i \<notin> set (List.map_filter f rows) \<Longrightarrow> \<forall>r \<in> set rows. f r \<noteq> Some i"
  by (auto simp: List.map_filter_def intro: rev_image_eqI)

lemma create_stock_success:
  assumes "create_stock db symbol name exchange = (Inr r, db')"
  shows "\<exists>objs d i. flush (store db) (pending db) = Inr (objs, d)
           \<and> r = \<lparr>s_id = Some i, s_symbol = upper symbol, s_name = name, s_exchange = exchange\<rparr>
           \<and> (\<forall>q \<in> set (stocks d). s_id q \<noteq> Some i)
           \<and> (\<forall>q \<in> set (stocks d). s_symbol q \<noteq> upper symbol)
           \<and> db' = \<lparr>store = d\<lparr>stocks := stocks d @ [r]\<rparr>, pending = []\<rparr>"
proof -
  let ?x = "\<lparr>s_id = None, s_symbol = upper symbol, s_name = name, s_exchange = exchange\<rparr>"
  from assms obtain objs d where fl: "flush (store db) (pending db) = Inr (objs, d)"
    by (auto simp: create_stock_def commit_def add_def flush_append Let_def
             split: sum.splits prod.splits)
  from assms fl obtain i where ai: "assign_id (List.map_filter s_id (stocks d)) None = Inr i"
    and sym: "upper symbol \<notin> set (map s_symbol (stocks d))"
    by (auto simp: create_stock_def commit_def add_def flush_append Let_def
             split: sum.splits prod.splits if_splits)
  let ?r = "?x\<lparr>s_id := Some i\<rparr>"
  have fresh: "\<forall>q \<in> set (stocks d). s_id q \<noteq> Some i"
    using assign_id_fresh [OF ai] by (rule map_filter_fresh)
  have sym': "\<forall>q \<in> set (stocks d). s_symbol q \<noteq> upper symbol"
    using sym by (auto simp: image_iff)
  have fnd: "find (\<lambda>q. s_id q = Some i) (stocks d @ [?r]) = Some ?r"
    using fresh by (intro find_append_fresh) auto
  from assms fl ai sym fnd have "r = ?r" and "db' = \<lparr>store = d\<lparr>stocks := stocks d @ [?r]\<rparr>, pending = []\<rparr>"
    by (auto simp: create_stock_def commit_def add_def flush_append Let_def refresh_stock_def)
  with fl fresh sym' show ?thesis by auto
qed

lemma flush_symbols_unique:
  "flush d objs = Inr (objs', d') \<Longrightarrow> distinct (map s_symbol (stocks d))
     \<Longrightarrow> distinct (map s_symbol (stocks d'))"
proof (induction objs arbitrary: d objs')
  case Nil
  then show ?case by simp
next
  case (Cons obj objs)
  from Cons.prems(1) obtain o1 d1 os1 where
    ins: "insert_entity d obj = Inr (o1, d1)" and rest: "flush d1 objs = Inr (os1, d')"
    by (auto split: sum.splits prod.splits)
  from ins Cons.prems(2) have "distinct (map s_symbol (stocks d1))"
    by (cases obj) (auto split: sum.splits if_splits)
  with Cons.IH [OF rest] show ?case .
qed

section \<open>Stocks: creation and retrieval by symbol\<close>



text \<open>
  Claim C6. After \<^verbatim>\<open>create_stock\<close> has succeeded for a symbol, creating a stock whose
  symbol is equal up to case fails with the integrity error of the unique constraint on
  \<^verbatim>\<open>stocks.symbol\<close>, raised by the commit and passed on unchanged, and the tables stay as
  they were; a successful \<^verbatim>\<open>create_stock\<close> keeps the symbols of the table pairwise
  different.
\<close>

theorem create_stock_duplicate_symbol:
  assumes "create_stock db symbol name exchange = (Inr r, db')"
    and "upper symbol' = upper symbol"
  shows "create_stock db' symbol' name' exchange' = (Inl (IntegrityError UniqueStockSymbol), db')
         \<and> (distinct (map s_symbol (stocks (store db)))
              \<longrightarrow> distinct (map s_symbol (stocks (store db'))))"
proof -
  from create_stock_success [OF assms(1)] obtain objs d i where
    fl: "flush (store db) (pending db) = Inr (objs, d)"
    and r: "r = \<lparr>s_id = Some i, s_symbol = upper symbol, s_name = name, s_exchange = exchange\<rparr>"
    and sym: "\<forall>q \<in> set (stocks d). s_symbol q \<noteq> upper symbol"
    and db': "db' = \<lparr>store = d\<lparr>stocks := stocks d @ [r]\<rparr>, pending = []\<rparr>"
    by blast
  have dup: "create_stock db' symbol' name' exchange' = (Inl (IntegrityError UniqueStockSymbol), db')"
    by (simp add: create_stock_def commit_def add_def db' assms(2) assign_id_def r)
  have "distinct (map s_symbol (stocks (store db'))) "
    if "distinct (map s_symbol (stocks (store db)))"
    using flush_symbols_unique [OF fl that] sym by (auto simp: db' r)
  with dup show ?thesis by blast
qed

theorem create_stock_duplicate_symbol_witness:
  "create_stock empty_session ''infy'' ''Infosys'' NSE =
     (Inr \<lparr>s_id = Some 1, s_symbol = ''INFY'', s_name = ''Infosys'', s_exchange = NSE\<rparr>,
      \<lparr>store = empty_database\<lparr>stocks :=
         [\<lparr>s_id = Some 1, s_symbol = ''INFY'', s_name = ''Infosys'', s_exchange = NSE\<rparr>]\<rparr>,
       pending = []\<rparr>)
   \<and> upper ''INFY'' = upper ''infy''
   \<and> create_stock
       \<lparr>store = empty_database\<lparr>stocks :=
         [\<lparr>s_id = Some 1, s_symbol = ''INFY'', s_name = ''Infosys'', s_exchange = NSE\<rparr>]\<rparr>,
        pending = []\<rparr> ''INFY'' ''Infosys Ltd'' BSE
     = (Inl (IntegrityError UniqueStockSymbol),
        \<lparr>store = empty_database\<lparr>stocks :=
           [\<lparr>s_id = Some 1, s_symbol = ''INFY'', s_name = ''Infosys'', s_exchange = NSE\<rparr>]\<rparr>,
         pending = []\<rparr>)"
proof -
  have c: "create_stock empty_session ''infy'' ''Infosys'' NSE =
     (Inr \<lparr>s_id = Some 1, s_symbol = ''INFY'', s_name = ''Infosys'', s_exchange = NSE\<rparr>,
      \<lparr>store = empty_database\<lparr>stocks :=
         [\<lparr>s_id = Some 1, s_symbol = ''INFY'', s_name = ''Infosys'', s_exchange = NSE\<rparr>]\<rparr>,
       pending = []\<rparr>)"
    by code_simp
  have u: "upper ''INFY'' = upper ''infy''"
    by code_simp
  from create_stock_duplicate_symbol [OF c u, of "''Infosys Ltd''" BSE] c u show ?thesis
    by blast
qed

section \<open>Sentiment records: the symbol of a constructed record\<close>

lemma upper_eq_Nil: "upper s = [] \<longleftrightarrow> s = []"
  by (simp add: upper_def)

text \<open>
  Claim C9. The record built by \<^verbatim>\<open>create_sentiment_data\<close> has no symbol when the
  \<^verbatim>\<open>stock_symbol\<close> argument is \<^verbatim>\<open>None\<close> or the empty string, and has the uppercase form
  of the argument otherwise; its symbol is never the empty string. The record returned is
  the one staged in the session.
\<close>

theorem create_sentiment_data_symbol:
  "(stock_symbol = None \<or> stock_symbol = Some [] \<longrightarrow>
      sd_stock_symbol (fst (create_sentiment_data now db source text sentiment_score
                              stock_symbol timestamp)) = None)
   \<and> (\<forall>s. stock_symbol = Some s \<and> s \<noteq> [] \<longrightarrow>
      sd_stock_symbol (fst (create_sentiment_data now db source text sentiment_score
                              stock_symbol timestamp)) = Some (upper s))
   \<and> sd_stock_symbol (fst (create_sentiment_data now db source text sentiment_score
                              stock_symbol timestamp)) \<noteq> Some []
   \<and> pending (snd (create_sentiment_data now db source text sentiment_score
                      stock_symbol timestamp))
       = pending db @ [ESentimentData (fst (create_sentiment_data now db source text
                                              sentiment_score stock_symbol timestamp))]"
  by (auto simp: create_sentiment_data_def truthy_def add_def Let_def upper_eq_Nil
           split: option.splits)

theorem create_sentiment_data_symbol_witness:
  "sd_stock_symbol (fst (create_sentiment_data 100 empty_session ''NewsAPI'' None 0 None None)) = None
   \<and> sd_stock_symbol (fst (create_sentiment_data 100 empty_session ''NewsAPI'' None 0 (Some []) None)) = None
   \<and> sd_stock_symbol (fst (create_sentiment_data 100 empty_session ''NewsAPI'' None 0 (Some ''infy'') None))
       = Some ''INFY''"
proof -
  have u: "upper ''infy'' = ''INFY''" by code_simp
  have n: "''infy'' \<noteq> []" by simp
  from create_sentiment_data_symbol [of None 100 empty_session "''NewsAPI''" None 0 None]
    create_sentiment_data_symbol [of "Some []" 100 empty_session "''NewsAPI''" None 0 None]
    create_sentiment_data_symbol [of "Some ''infy''" 100 empty_session "''NewsAPI''" None 0 None]
    u n
  show ?thesis by (simp del: upper_eq_Nil)
qed

section \<open>Live prices: the latest tick\<close>

lemma first_order_by_desc:
  "rows \<noteq> [] \<Longrightarrow> \<exists>r. first (order_by_desc key rows) = Some r \<and> r \<in> set rows
      \<and> (\<forall>q \<in> set rows. key q \<le> key r)"
proof -
  assume ne: "rows \<noteq> []"
  let ?s = "sort_key (\<lambda>r. - key r) rows"
  have "?s \<noteq> []" using ne by (metis length_0_conv length_sort)
  then obtain r rest where s: "?s = r # rest" by (cases ?s) auto
  have "sorted (map (\<lambda>r. - key r) ?s)" by (rule sorted_sort_key)
  then have "\<forall>q \<in> set rest. - key r \<le> - key q" by (simp add: s)
  moreover have "set ?s = set rows" by simp
  ultimately have "\<forall>q \<in> set rows. key q \<le> key r" and "r \<in> set rows"
    unfolding s by auto
  then show ?thesis by (auto simp: first_def order_by_desc_def s)
qed

text \<open>
  Claim C5. When the table holds a live price of the stock, \<^verbatim>\<open>get_latest_live_price\<close>
  returns a live-price row of that stock whose timestamp is the largest among the rows
  of that stock; when the table holds none, it returns \<^verbatim>\<open>None\<close>.
\<close>

theorem get_latest_live_price_max:
  "((\<exists>q \<in> set (live_prices (store db)). lp_stock_id q = stock_id) \<longrightarrow>
      (\<exists>r. get_latest_live_price db stock_id = Some r
           \<and> r \<in> set (live_prices (store db)) \<and> lp_stock_id r = stock_id
           \<and> (\<forall>q \<in> set (live_prices (store db)).
                 lp_stock_id q = stock_id \<longrightarrow> lp_timestamp q \<le> lp_timestamp r)))
   \<and> ((\<forall>q \<in> set (live_prices (store db)). lp_stock_id q \<noteq> stock_id) \<longrightarrow>
        get_latest_live_price db stock_id = None)"
proof (intro conjI impI)
  assume "\<exists>q \<in> set (live_prices (store db)). lp_stock_id q = stock_id"
  then have "filter (\<lambda>r. lp_stock_id r = stock_id) (live_prices (store db)) \<noteq> []"
    by (simp add: filter_empty_conv)
  from first_order_by_desc [OF this, of lp_timestamp]
  show "\<exists>r. get_latest_live_price db stock_id = Some r
           \<and> r \<in> set (live_prices (store db)) \<and> lp_stock_id r = stock_id
           \<and> (\<forall>q \<in> set (live_prices (store db)).
                 lp_stock_id q = stock_id \<longrightarrow> lp_timestamp q \<le> lp_timestamp r)"
    by (auto simp: get_latest_live_price_def)
next
  assume "\<forall>q \<in> set (live_prices (store db)). lp_stock_id q \<noteq> stock_id"
  then have "filter (\<lambda>r. lp_stock_id r = stock_id) (live_prices (store db)) = []"
    by (simp add: filter_empty_conv)
  then show "get_latest_live_price db stock_id = None"
    by (simp add: get_latest_live_price_def order_by_desc_def first_def)
qed

text \<open>
  Three ticks of stock 1 inserted in one bulk call at the timestamps 10, 30 and 20: the
  latest is the tick at 30. Stock 2 has no tick.
\<close>

theorem get_latest_live_price_max_witness:
  "add_live_prices_bulk empty_session
     [\<lparr>lp_id = None, lp_stock_id = 1, lp_timestamp = 10, lp_price = 100, lp_volume = 5\<rparr>,
      \<lparr>lp_id = None, lp_stock_id = 1, lp_timestamp = 30, lp_price = 102, lp_volume = 7\<rparr>,
      \<lparr>lp_id = None, lp_stock_id = 1, lp_timestamp = 20, lp_price = 101, lp_volume = 6\<rparr>]
   = (Inr (), \<lparr>store = empty_database\<lparr>live_prices :=
     [\<lparr>lp_id = Some 1, lp_stock_id = 1, lp_timestamp = 10, lp_price = 100, lp_volume = 5\<rparr>,
      \<lparr>lp_id = Some 2, lp_stock_id = 1, lp_timestamp = 30, lp_price = 102, lp_volume = 7\<rparr>,
      \<lparr>lp_id = Some 3, lp_stock_id = 1, lp_timestamp = 20, lp_price = 101, lp_volume = 6\<rparr>]\<rparr>,
      pending = []\<rparr>)
   \<and> get_latest_live_price \<lparr>store = empty_database\<lparr>live_prices :=
     [\<lparr>lp_id = Some 1, lp_stock_id = 1, lp_timestamp = 10, lp_price = 100, lp_volume = 5\<rparr>,
      \<lparr>lp_id = Some 2, lp_stock_id = 1, lp_timestamp = 30, lp_price = 102, lp_volume = 7\<rparr>,
      \<lparr>lp_id = Some 3, lp_stock_id = 1, lp_timestamp = 20, lp_price = 101, lp_volume = 6\<rparr>]\<rparr>,
      pending = []\<rparr> 1
     = Some \<lparr>lp_id = Some 2, lp_stock_id = 1, lp_timestamp = 30, lp_price = 102, lp_volume = 7\<rparr>
   \<and> get_latest_live_price \<lparr>store = empty_database\<lparr>live_prices :=
     [\<lparr>lp_id = Some 1, lp_stock_id = 1, lp_timestamp = 10, lp_price = 100, lp_volume = 5\<rparr>,
      \<lparr>lp_id = Some 2, lp_stock_id = 1, lp_timestamp = 30, lp_price = 102, lp_volume = 7\<rparr>,
      \<lparr>lp_id = Some 3, lp_stock_id = 1, lp_timestamp = 20, lp_price = 101, lp_volume = 6\<rparr>]\<rparr>,
      pending = []\<rparr> 2
     = None"
proof -
  let ?db = "\<lparr>store = empty_database\<lparr>live_prices :=
     [\<lparr>lp_id = Some 1, lp_stock_id = 1, lp_timestamp = 10, lp_price = 100, lp_volume = 5\<rparr>,
      \<lparr>lp_id = Some 2, lp_stock_id = 1, lp_timestamp = 30, lp_price = 102, lp_volume = 7\<rparr>,
      \<lparr>lp_id = Some 3, lp_stock_id = 1, lp_timestamp = 20, lp_price = 101, lp_volume = 6\<rparr>]\<rparr>,
      pending = []\<rparr>"
  have ins: "add_live_prices_bulk empty_session
     [\<lparr>lp_id = None, lp_stock_id = 1, lp_timestamp = 10, lp_price = 100, lp_volume = 5\<rparr>,
      \<lparr>lp_id = None, lp_stock_id = 1, lp_timestamp = 30, lp_price = 102, lp_volume = 7\<rparr>,
      \<lparr>lp_id = None, lp_stock_id = 1, lp_timestamp = 20, lp_price = 101, lp_volume = 6\<rparr>]
     = (Inr (), ?db)"
    by (simp add: add_live_prices_bulk_def add_all_def commit_def empty_session_def
          empty_database_def assign_id_def next_id_def)
  have has: "\<exists>q \<in> set (live_prices (store ?db)). lp_stock_id q = 1"
    by simp
  have none: "\<forall>q \<in> set (live_prices (store ?db)). lp_stock_id q \<noteq> 2"
    by simp
  from get_latest_live_price_max [of ?db 1] has
  obtain r where r: "get_latest_live_price ?db 1 = Some r"
    and mem: "r \<in> set (live_prices (store ?db))"
    and top: "\<forall>q \<in> set (live_prices (store ?db)). lp_stock_id q = 1 \<longrightarrow> lp_timestamp q \<le> lp_timestamp r"
    by blast
  from mem top have "r = \<lparr>lp_id = Some 2, lp_stock_id = 1, lp_timestamp = 30, lp_price = 102, lp_volume = 7\<rparr>"
    by auto
  with r have latest: "get_latest_live_price ?db 1
     = Some \<lparr>lp_id = Some 2, lp_stock_id = 1, lp_timestamp = 30, lp_price = 102, lp_volume = 7\<rparr>"
    by simp
  from get_latest_live_price_max [of ?db 2] none
  have "get_latest_live_price ?db 2 = None"
    by blast
  with ins latest show ?thesis by blast
qed

section \<open>Creating single records: staging and committing\<close>

text \<open>
  Claim C2, as stated: no create-single operation commits, so the tables are unchanged
  by the call. \<^verbatim>\<open>create_stock\<close> calls \<^verbatim>\<open>db.commit()\<close> itself: on a fresh database the
  tables after the call differ from the tables before.
\<close>

theorem create_single_commit_counterexample:
  "store (snd (create_stock empty_session ''infy'' ''Infosys'' NSE)) \<noteq> store empty_session"
  by (simp add: create_stock_def commit_def add_def empty_session_def empty_database_def
        assign_id_def next_id_def refresh_stock_def)

text \<open>
  Claim C2, amended. \<^verbatim>\<open>create_historical_price\<close>, \<^verbatim>\<open>create_live_price\<close>,
  \<^verbatim>\<open>create_sentiment_data\<close> and \<^verbatim>\<open>create_trading_tip\<close> build the record, stage it as
  the last object of the session and return it, and leave the tables unchanged; the
  symbol of a trading tip is uppercased, and so is a truthy symbol of a sentiment record
  (the two price records have no symbol). \<^verbatim>\<open>create_stock\<close> commits: when it returns a
  record, that record is a row of the stocks table with the uppercased symbol and nothing
  is left staged.
\<close>

theorem create_single_staging:
  "store (snd (create_historical_price db stock_id date open_price high_price low_price
                 close_price volume)) = store db
   \<and> pending (snd (create_historical_price db stock_id date open_price high_price low_price
                     close_price volume))
       = pending db @ [EHistoricalPrice (fst (create_historical_price db stock_id date
                          open_price high_price low_price close_price volume))]
   \<and> store (snd (create_live_price now db stock_id price volume timestamp)) = store db
   \<and> pending (snd (create_live_price now db stock_id price volume timestamp))
       = pending db @ [ELivePrice (fst (create_live_price now db stock_id price volume
                          timestamp))]
   \<and> store (snd (create_sentiment_data now db source text sentiment_score stock_symbol
                    timestamp)) = store db
   \<and> pending (snd (create_sentiment_data now db source text sentiment_score stock_symbol
                      timestamp))
       = pending db @ [ESentimentData (fst (create_sentiment_data now db source text
                          sentiment_score stock_symbol timestamp))]
   \<and> (truthy stock_symbol \<longrightarrow>
        sd_stock_symbol (fst (create_sentiment_data now db source text sentiment_score
                                stock_symbol timestamp)) = map_option upper stock_symbol)
   \<and> store (snd (create_trading_tip now db symbol tip_type action reason confidence_score
                    timestamp)) = store db
   \<and> pending (snd (create_trading_tip now db symbol tip_type action reason confidence_score
                      timestamp))
       = pending db @ [ETradingTip (fst (create_trading_tip now db symbol tip_type action
                          reason confidence_score timestamp))]
   \<and> tt_stock_symbol (fst (create_trading_tip now db symbol tip_type action reason
                              confidence_score timestamp)) = upper symbol
   \<and> (create_stock db symbol name exchange = (Inr r, db') \<longrightarrow>
        r \<in> set (stocks (store db')) \<and> s_symbol r = upper symbol \<and> pending db' = [])"
proof -
  have "r \<in> set (stocks (store db')) \<and> s_symbol r = upper symbol \<and> pending db' = []"
    if "create_stock db symbol name exchange = (Inr r, db')"
    using create_stock_success [OF that] by auto
  then show ?thesis
    by (simp add: create_historical_price_def create_live_price_def create_sentiment_data_def
          create_trading_tip_def add_def Let_def)
qed

theorem create_single_staging_witness:
  "truthy (Some ''infy'')
   \<and> sd_stock_symbol (fst (create_sentiment_data 100 empty_session ''NewsAPI'' None 0
                            (Some ''infy'') None)) = Some ''INFY''
   \<and> create_stock empty_session ''infy'' ''Infosys'' NSE =
     (Inr \<lparr>s_id = Some 1, s_symbol = ''INFY'', s_name = ''Infosys'', s_exchange = NSE\<rparr>,
      \<lparr>store = empty_database\<lparr>stocks :=
         [\<lparr>s_id = Some 1, s_symbol = ''INFY'', s_name = ''Infosys'', s_exchange = NSE\<rparr>]\<rparr>,
       pending = []\<rparr>)
   \<and> \<lparr>s_id = Some 1, s_symbol = ''INFY'', s_name = ''Infosys'', s_exchange = NSE\<rparr>
       \<in> set (stocks (store \<lparr>store = empty_database\<lparr>stocks :=
         [\<lparr>s_id = Some 1, s_symbol = ''INFY'', s_name = ''Infosys'', s_exchange = NSE\<rparr>]\<rparr>,
       pending = []\<rparr>))
   \<and> store (snd (create_trading_tip 100 empty_session ''infy'' INTRADAY BUY ''volume'' None
                    None)) = store empty_session"
proof -
  have t: "truthy (Some ''infy'')"
    by (simp add: truthy_def)
  have u: "upper ''infy'' = ''INFY''"
    by code_simp
  have c: "create_stock empty_session ''infy'' ''Infosys'' NSE =
     (Inr \<lparr>s_id = Some 1, s_symbol = ''INFY'', s_name = ''Infosys'', s_exchange = NSE\<rparr>,
      \<lparr>store = empty_database\<lparr>stocks :=
         [\<lparr>s_id = Some 1, s_symbol = ''INFY'', s_name = ''Infosys'', s_exchange = NSE\<rparr>]\<rparr>,
       pending = []\<rparr>)"
    by code_simp
  from create_single_staging [where db = empty_session and now = 100
      and source = "''NewsAPI''" and sentiment_score = 0
      and stock_symbol = "Some ''infy''" and timestamp = None and symbol = "''infy''"
      and tip_type = INTRADAY and action = BUY and reason = "''volume''"
      and confidence_score = None and name = "''Infosys''" and exchange = NSE
      and r = "\<lparr>s_id = Some 1, s_symbol = ''INFY'', s_name = ''Infosys'', s_exchange = NSE\<rparr>"
      and db' = "\<lparr>store = empty_database\<lparr>stocks :=
         [\<lparr>s_id = Some 1, s_symbol = ''INFY'', s_name = ''Infosys'', s_exchange = NSE\<rparr>]\<rparr>,
       pending = []\<rparr>"] t c u
  show ?thesis
    by (simp del: upper_eq_Nil)
qed

section \<open>Listing: ordering, offset and limit\<close>

lemma limit_rows_int: "limit_rows (int L) rows = take L rows"
  by (simp add: limit_rows_def)

lemma offset_rows_int: "offset_rows (int k) rows = drop k rows"
  by (simp add: offset_rows_def)

lemma order_by_desc_sorted:
  "sorted_wrt (\<lambda>a b. key a \<ge> key b) (order_by_desc key rows)"
proof -
  have "sorted (map (\<lambda>r. - key r) (sort_key (\<lambda>r. - key r) rows))"
    by (rule sorted_sort_key)
  then show ?thesis
    by (simp add: order_by_desc_def sorted_map)
qed

lemma order_by_desc_mset: "mset (order_by_desc key rows) = mset rows"
  by (simp add: order_by_desc_def)

lemma order_by_sorted: "sorted (map key (order_by key rows))"
  by (simp add: order_by_def)

lemma order_by_mset: "mset (order_by key rows) = mset rows"
  by (simp add: order_by_def)

lemma page_offset: "1 \<le> page \<Longrightarrow> offset_rows ((page - 1) * int L) rows = drop (nat (page - 1) * L) rows"
  by (simp add: offset_rows_def nat_mult_distrib)

text \<open>
  Claim C3. For a page number of at least 1 and a limit \<open>L\<close> (a count),
  \<^verbatim>\<open>get_trading_tips\<close> returns the tips (those of the symbol, when one is given) in
  descending order of timestamp, without the first \<open>(page - 1) * L\<close> of them and cut
  after \<open>L\<close>; the ordering is a rearrangement of the stored tips. With limit 20 and
  page 2 these are the records 21 to 40 of the ordering.
\<close>

theorem get_trading_tips_page:
  assumes "1 \<le> page"
  shows "(let rows = (if truthy stock_symbol
                      then filter (\<lambda>r. Some (tt_stock_symbol r) = map_option upper stock_symbol)
                             (trading_tips (store db))
                      else trading_tips (store db));
              ordered = order_by_desc tt_timestamp rows
          in get_trading_tips db stock_symbol (int L) page
               = take L (drop (nat (page - 1) * L) ordered)
           \<and> sorted_wrt (\<lambda>a b. tt_timestamp a \<ge> tt_timestamp b) ordered
           \<and> mset ordered = mset rows
           \<and> length (get_trading_tips db stock_symbol (int L) page) \<le> L
           \<and> get_trading_tips db stock_symbol 20 2 = take 20 (drop 20 ordered))"
proof -
  have a: "get_trading_tips db stock_symbol (int L) page
        = take L (drop (nat (page - 1) * L) (order_by_desc tt_timestamp
            (if truthy stock_symbol
             then filter (\<lambda>r. Some (tt_stock_symbol r) = map_option upper stock_symbol)
                    (trading_tips (store db))
             else trading_tips (store db))))"
    using assms by (simp add: get_trading_tips_def Let_def limit_rows_int page_offset)
  have b: "get_trading_tips db stock_symbol 20 2
        = take 20 (drop 20 (order_by_desc tt_timestamp
            (if truthy stock_symbol
             then filter (\<lambda>r. Some (tt_stock_symbol r) = map_option upper stock_symbol)
                    (trading_tips (store db))
             else trading_tips (store db))))"
    by (simp add: get_trading_tips_def Let_def limit_rows_def offset_rows_def)
  show ?thesis
    unfolding Let_def
    by (intro conjI) (simp_all only: a b order_by_desc_sorted order_by_desc_mset, simp)
qed

theorem get_trading_tips_page_witness:
  "(1::int) \<le> 2
   \<and> get_trading_tips
       \<lparr>store = empty_database\<lparr>trading_tips :=
          [\<lparr>tt_id = Some 1, tt_timestamp = 10, tt_stock_symbol = ''INFY'', tt_tip_type = INTRADAY,
            tt_action = BUY, tt_reason = ''a'', tt_confidence_score = None\<rparr>,
           \<lparr>tt_id = Some 2, tt_timestamp = 30, tt_stock_symbol = ''TCS'', tt_tip_type = SWING,
            tt_action = SELL, tt_reason = ''b'', tt_confidence_score = None\<rparr>,
           \<lparr>tt_id = Some 3, tt_timestamp = 20, tt_stock_symbol = ''INFY'', tt_tip_type = OPTIONS,
            tt_action = HOLD, tt_reason = ''c'', tt_confidence_score = None\<rparr>]\<rparr>,
        pending = []\<rparr> None 1 2
     = [\<lparr>tt_id = Some 3, tt_timestamp = 20, tt_stock_symbol = ''INFY'', tt_tip_type = OPTIONS,
         tt_action = HOLD, tt_reason = ''c'', tt_confidence_score = None\<rparr>]"
proof -
  have p: "(1::int) \<le> 2" by simp
  from get_trading_tips_page [OF p, of None
       "\<lparr>store = empty_database\<lparr>trading_tips :=
          [\<lparr>tt_id = Some 1, tt_timestamp = 10, tt_stock_symbol = ''INFY'', tt_tip_type = INTRADAY,
            tt_action = BUY, tt_reason = ''a'', tt_confidence_score = None\<rparr>,
           \<lparr>tt_id = Some 2, tt_timestamp = 30, tt_stock_symbol = ''TCS'', tt_tip_type = SWING,
            tt_action = SELL, tt_reason = ''b'', tt_confidence_score = None\<rparr>,
           \<lparr>tt_id = Some 3, tt_timestamp = 20, tt_stock_symbol = ''INFY'', tt_tip_type = OPTIONS,
            tt_action = HOLD, tt_reason = ''c'', tt_confidence_score = None\<rparr>]\<rparr>,
        pending = []\<rparr>" 1]
  show ?thesis
    by (simp add: Let_def truthy_def order_by_desc_def)
qed

section \<open>Historical prices: the date range\<close>

lemma limit_rows_submset: "mset (limit_rows n rows) \<subseteq># mset rows"
proof -
  have "mset (take k rows) \<subseteq># mset rows" for k
    by (metis append_take_drop_id mset_append mset_subset_eq_add_left)
  then show ?thesis by (simp add: limit_rows_def)
qed

lemma offset_rows_submset: "mset (offset_rows n rows) \<subseteq># mset rows"
  unfolding offset_rows_def
  by (metis append_take_drop_id mset_append mset_subset_eq_add_right)

lemma limit_rows_sorted: "sorted (map key rows) \<Longrightarrow> sorted (map key (limit_rows n rows))"
  by (simp add: limit_rows_def take_map [symmetric] sorted_wrt_take del: take_map)

lemma offset_rows_sorted: "sorted (map key rows) \<Longrightarrow> sorted (map key (offset_rows n rows))"
  by (simp add: offset_rows_def drop_map [symmetric] sorted_wrt_drop del: drop_map)

lemma limit_rows_all: "n < 0 \<or> int (length rows) \<le> n \<Longrightarrow> limit_rows n rows = rows"
  by (auto simp: limit_rows_def)

lemma offset_rows_none: "k \<le> 0 \<Longrightarrow> offset_rows k rows = rows"
  by (simp add: offset_rows_def)

text \<open>
  Claim C4, as stated: the call returns exactly the records of the stock dated within the
  range. With the defaults \<^verbatim>\<open>skip=0\<close> and \<^verbatim>\<open>limit=1000\<close> and 1001 daily bars of
  stock 1 dated 0 to 1000, all 1001 bars lie in the range 0 to 1000 and the call returns
  1000 of them.
\<close>

theorem get_historical_prices_limit_counterexample:
  "length (filter (\<lambda>r. hp_stock_id r = 1 \<and> hp_date r \<ge> 0 \<and> hp_date r \<le> 1000)
             (daily_bars 1001)) = 1001
   \<and> length (get_historical_prices
               \<lparr>store = empty_database\<lparr>historical_prices := daily_bars 1001\<rparr>, pending = []\<rparr>
               1 0 1000 0 1000) = 1000"
proof -
  have f: "filter (\<lambda>r. hp_stock_id r = 1 \<and> hp_date r \<ge> 0 \<and> hp_date r \<le> 1000)
             (daily_bars 1001) = daily_bars 1001"
    by (rule filter_True) (auto simp: daily_bars_def)
  have l: "length (daily_bars 1001) = 1001"
    by (simp add: daily_bars_def)
  show ?thesis
    by (simp add: get_historical_prices_def f l limit_rows_def offset_rows_def order_by_def)
qed

text \<open>
  Claim C4, amended. \<^verbatim>\<open>get_historical_prices\<close> returns records of the stock dated
  within the range, both ends included, in ascending order of date: the matching records
  in that order, without the first \<^verbatim>\<open>skip\<close> and cut after \<^verbatim>\<open>limit\<close> (1000 by default).
  For an offset \<open>k\<close> and a limit \<open>L\<close> (counts) the result is exactly the records
  \<open>k + 1\<close> to \<open>k + L\<close> of the matching records in ascending order of date, as many
  as there are. It returns exactly the matching records, each as often as it is stored,
  when nothing is skipped and they number at most \<^verbatim>\<open>limit\<close>.
\<close>

theorem get_historical_prices_range:
  "get_historical_prices db stock_id start_date end_date skip limit
     = limit_rows limit (offset_rows skip (order_by hp_date
         (filter (\<lambda>r. hp_stock_id r = stock_id \<and> hp_date r \<ge> start_date
                      \<and> hp_date r \<le> end_date) (historical_prices (store db)))))
   \<and> get_historical_prices db stock_id start_date end_date (int k) (int L)
     = take L (drop k (order_by hp_date
         (filter (\<lambda>r. hp_stock_id r = stock_id \<and> hp_date r \<ge> start_date
                      \<and> hp_date r \<le> end_date) (historical_prices (store db)))))
   \<and> length (get_historical_prices db stock_id start_date end_date (int k) (int L))
     = min L (length (filter (\<lambda>r. hp_stock_id r = stock_id \<and> hp_date r \<ge> start_date
                      \<and> hp_date r \<le> end_date) (historical_prices (store db))) - k)
   \<and> sorted (map hp_date (order_by hp_date
         (filter (\<lambda>r. hp_stock_id r = stock_id \<and> hp_date r \<ge> start_date
                      \<and> hp_date r \<le> end_date) (historical_prices (store db)))))
   \<and> mset (order_by hp_date
         (filter (\<lambda>r. hp_stock_id r = stock_id \<and> hp_date r \<ge> start_date
                      \<and> hp_date r \<le> end_date) (historical_prices (store db))))
     = mset (filter (\<lambda>r. hp_stock_id r = stock_id \<and> hp_date r \<ge> start_date
                      \<and> hp_date r \<le> end_date) (historical_prices (store db)))
   \<and> sorted (map hp_date (get_historical_prices db stock_id start_date end_date skip limit))
   \<and> mset (get_historical_prices db stock_id start_date end_date skip limit)
       \<subseteq># mset (filter (\<lambda>r. hp_stock_id r = stock_id \<and> hp_date r \<ge> start_date
                              \<and> hp_date r \<le> end_date) (historical_prices (store db)))
   \<and> (skip \<le> 0 \<and> (limit < 0 \<or>
          int (length (filter (\<lambda>r. hp_stock_id r = stock_id \<and> hp_date r \<ge> start_date
                                 \<and> hp_date r \<le> end_date) (historical_prices (store db))))
            \<le> limit) \<longrightarrow>
        get_historical_prices db stock_id start_date end_date skip limit
          = order_by hp_date
              (filter (\<lambda>r. hp_stock_id r = stock_id \<and> hp_date r \<ge> start_date
                           \<and> hp_date r \<le> end_date) (historical_prices (store db)))
        \<and> mset (get_historical_prices db stock_id start_date end_date skip limit)
          = mset (filter (\<lambda>r. hp_stock_id r = stock_id \<and> hp_date r \<ge> start_date
                                \<and> hp_date r \<le> end_date) (historical_prices (store db))))"
proof -
  let ?m = "filter (\<lambda>r. hp_stock_id r = stock_id \<and> hp_date r \<ge> start_date
                        \<and> hp_date r \<le> end_date) (historical_prices (store db))"
  let ?o = "order_by hp_date ?m"
  have g: "get_historical_prices db stock_id start_date end_date skip limit
             = limit_rows limit (offset_rows skip ?o)" for skip limit
    by (simp add: get_historical_prices_def)
  have len: "length ?o = length ?m"
    by (simp add: order_by_def)
  have page: "get_historical_prices db stock_id start_date end_date (int k) (int L)
             = take L (drop k ?o)"
    by (simp only: g limit_rows_int offset_rows_int)
  have plen: "length (get_historical_prices db stock_id start_date end_date (int k) (int L))
             = min L (length ?m - k)"
    by (simp add: page len)
  have so: "sorted (map hp_date ?o)"
    by (rule order_by_sorted)
  have mo: "mset ?o = mset ?m"
    by (rule order_by_mset)
  have s: "sorted (map hp_date (get_historical_prices db stock_id start_date end_date skip limit))"
    unfolding g by (intro limit_rows_sorted offset_rows_sorted order_by_sorted)
  have "mset (limit_rows limit (offset_rows skip ?o)) \<subseteq># mset (offset_rows skip ?o)"
    by (rule limit_rows_submset)
  also have "\<dots> \<subseteq># mset ?o"
    by (rule offset_rows_submset)
  finally have sub: "mset (get_historical_prices db stock_id start_date end_date skip limit)
       \<subseteq># mset ?m"
    by (simp add: order_by_mset g)
  have all: "get_historical_prices db stock_id start_date end_date skip limit = ?o
      \<and> mset (get_historical_prices db stock_id start_date end_date skip limit) = mset ?m"
    if "skip \<le> 0 \<and> (limit < 0 \<or> int (length ?m) \<le> limit)"
  proof -
    from that len have "limit_rows limit (offset_rows skip ?o) = ?o"
      by (simp add: offset_rows_none limit_rows_all)
    then show ?thesis by (simp add: order_by_mset g)
  qed
  from g [of skip limit] page plen so mo s sub all show ?thesis
    by (intro conjI impI) (assumption | blast)+
qed

text \<open>
  Ten daily bars dated 0 to 9: the range 2 to 4 yields exactly the three bars dated
  2, 3 and 4, in this order. Of the six bars in the range 2 to 7, skipping one and keeping
  two yields the bars dated 3 and 4, and skipping four yields the bars dated 6 and 7.
\<close>

theorem get_historical_prices_range_witness:
  "(0::int) \<le> 0
   \<and> int (length (filter (\<lambda>r. hp_stock_id r = 1 \<and> hp_date r \<ge> 2 \<and> hp_date r \<le> 4)
        (historical_prices (store
           \<lparr>store = empty_database\<lparr>historical_prices := daily_bars 10\<rparr>, pending = []\<rparr>))))
       \<le> 1000
   \<and> map hp_date (get_historical_prices
         \<lparr>store = empty_database\<lparr>historical_prices := daily_bars 10\<rparr>, pending = []\<rparr>
         1 2 4 0 1000) = [2, 3, 4]
   \<and> mset (get_historical_prices
         \<lparr>store = empty_database\<lparr>historical_prices := daily_bars 10\<rparr>, pending = []\<rparr>
         1 2 4 0 1000)
       = mset (filter (\<lambda>r. hp_stock_id r = 1 \<and> hp_date r \<ge> 2 \<and> hp_date r \<le> 4)
           (historical_prices (store
              \<lparr>store = empty_database\<lparr>historical_prices := daily_bars 10\<rparr>, pending = []\<rparr>)))
   \<and> map hp_date (get_historical_prices
         \<lparr>store = empty_database\<lparr>historical_prices := daily_bars 10\<rparr>, pending = []\<rparr>
         1 2 7 1 2) = [3, 4]
   \<and> map hp_date (get_historical_prices
         \<lparr>store = empty_database\<lparr>historical_prices := daily_bars 10\<rparr>, pending = []\<rparr>
         1 2 7 4 1000) = [6, 7]"
proof -
  let ?db = "\<lparr>store = empty_database\<lparr>historical_prices := daily_bars 10\<rparr>, pending = []\<rparr>"
  have b: "daily_bars 10 = map (\<lambda>k. \<lparr>hp_id = Some (int k + 1), hp_stock_id = 1, hp_date = int k, hp_open = 0,
                hp_high = 0, hp_low = 0, hp_close = 0, hp_volume = 0\<rparr>) [0,1,2,3,4,5,6,7,8,9]"
    unfolding daily_bars_def by (simp add: upt_rec)
  have n: "int (length (filter (\<lambda>r. hp_stock_id r = 1 \<and> hp_date r \<ge> 2 \<and> hp_date r \<le> 4)
        (historical_prices (store ?db)))) \<le> 1000"
    by (simp add: b)
  have full: "get_historical_prices ?db 1 2 4 0 1000
      = order_by hp_date (filter (\<lambda>r. hp_stock_id r = 1 \<and> hp_date r \<ge> 2 \<and> hp_date r \<le> 4)
          (historical_prices (store ?db)))"
    and ms: "mset (get_historical_prices ?db 1 2 4 0 1000)
      = mset (filter (\<lambda>r. hp_stock_id r = 1 \<and> hp_date r \<ge> 2 \<and> hp_date r \<le> 4)
          (historical_prices (store ?db)))"
    using get_historical_prices_range [of ?db 1 2 4 0 1000] n by blast+
  have d: "map hp_date (get_historical_prices ?db 1 2 4 0 1000) = [2, 3, 4]"
    unfolding full by (simp add: b order_by_def)
  have "get_historical_prices ?db 1 2 7 (int 1) (int 2)
      = take 2 (drop 1 (order_by hp_date
          (filter (\<lambda>r. hp_stock_id r = 1 \<and> hp_date r \<ge> 2 \<and> hp_date r \<le> 7)
             (historical_prices (store ?db)))))"
    using get_historical_prices_range [of ?db 1 2 7 _ _ 1 2] by blast
  then have c1: "map hp_date (get_historical_prices ?db 1 2 7 1 2) = [3, 4]"
    by (simp add: b order_by_def)
  have "get_historical_prices ?db 1 2 7 (int 4) (int 1000)
      = take 1000 (drop 4 (order_by hp_date
          (filter (\<lambda>r. hp_stock_id r = 1 \<and> hp_date r \<ge> 2 \<and> hp_date r \<le> 7)
             (historical_prices (store ?db)))))"
    using get_historical_prices_range [of ?db 1 2 7 _ _ 4 1000] by blast
  then have c2: "map hp_date (get_historical_prices ?db 1 2 7 4 1000) = [6, 7]"
    by (simp add: b order_by_def)
  from n d ms c1 c2 show ?thesis by simp
qed

section \<open>Listing: which operations take an offset\<close>

lemma get_sentiment_data_filter:
  "get_sentiment_data db stock_symbol start_date end_date limit =
     limit_rows limit (order_by_desc sd_timestamp
       (filter (\<lambda>r. (truthy stock_symbol \<longrightarrow> sd_stock_symbol r = map_option upper stock_symbol)
                   \<and> (\<forall>t. start_date = Some t \<longrightarrow> sd_timestamp r \<ge> t)
                   \<and> (\<forall>t. end_date = Some t \<longrightarrow> sd_timestamp r \<le> t))
          (sentiment_data (store db))))"
  by (auto simp: get_sentiment_data_def Let_def split: option.splits intro!: arg_cong [where f = "limit_rows limit"] arg_cong [where f = "order_by_desc sd_timestamp"] filter_cong)

text \<open>
  Claim C8, as stated: each of the four listing operations can skip the first \<open>k\<close>
  records of its ordered result, for every \<open>k\<close>. \<^verbatim>\<open>get_sentiment_data\<close> has a limit
  and no offset. With two stored records of the same symbol and timestamp, skipping one
  record and keeping one would give the second record alone, and no call of
  \<^verbatim>\<open>get_sentiment_data\<close> returns that.
\<close>

theorem get_sentiment_data_offset_counterexample:
  "limit_rows 1 (offset_rows 1 (order_by_desc sd_timestamp (sentiment_data (store
      \<lparr>store = empty_database\<lparr>sentiment_data :=
         [\<lparr>sd_id = Some 1, sd_source = ''NewsAPI'', sd_timestamp = 10, sd_text = Some ''a'',
           sd_sentiment_score = 0, sd_stock_symbol = Some ''INFY''\<rparr>,
          \<lparr>sd_id = Some 2, sd_source = ''NewsAPI'', sd_timestamp = 10, sd_text = Some ''b'',
           sd_sentiment_score = 0, sd_stock_symbol = Some ''INFY''\<rparr>]\<rparr>,
       pending = []\<rparr>))))
   = [\<lparr>sd_id = Some 2, sd_source = ''NewsAPI'', sd_timestamp = 10, sd_text = Some ''b'',
       sd_sentiment_score = 0, sd_stock_symbol = Some ''INFY''\<rparr>]
   \<and> \<not> (\<exists>stock_symbol start_date end_date limit.
         get_sentiment_data
           \<lparr>store = empty_database\<lparr>sentiment_data :=
              [\<lparr>sd_id = Some 1, sd_source = ''NewsAPI'', sd_timestamp = 10, sd_text = Some ''a'',
                sd_sentiment_score = 0, sd_stock_symbol = Some ''INFY''\<rparr>,
               \<lparr>sd_id = Some 2, sd_source = ''NewsAPI'', sd_timestamp = 10, sd_text = Some ''b'',
                sd_sentiment_score = 0, sd_stock_symbol = Some ''INFY''\<rparr>]\<rparr>,
            pending = []\<rparr> stock_symbol start_date end_date limit
         = [\<lparr>sd_id = Some 2, sd_source = ''NewsAPI'', sd_timestamp = 10, sd_text = Some ''b'',
             sd_sentiment_score = 0, sd_stock_symbol = Some ''INFY''\<rparr>])"
proof -
  let ?r1 = "\<lparr>sd_id = Some 1, sd_source = ''NewsAPI'', sd_timestamp = 10, sd_text = Some ''a'',
           sd_sentiment_score = 0, sd_stock_symbol = Some ''INFY''\<rparr>"
  let ?r2 = "\<lparr>sd_id = Some 2, sd_source = ''NewsAPI'', sd_timestamp = 10, sd_text = Some ''b'',
           sd_sentiment_score = 0, sd_stock_symbol = Some ''INFY''\<rparr>"
  let ?db = "\<lparr>store = empty_database\<lparr>sentiment_data := [?r1, ?r2]\<rparr>, pending = []\<rparr>"
  have a: "limit_rows 1 (offset_rows 1 (order_by_desc sd_timestamp (sentiment_data (store ?db))))
             = [?r2]"
    by (simp add: limit_rows_def offset_rows_def order_by_desc_def)
  have pre: "take n [?r1, ?r2] \<noteq> [?r2]" for n
    by (cases n) auto
  have b: "get_sentiment_data ?db stock_symbol start_date end_date limit \<noteq> [?r2]"
    for stock_symbol start_date end_date limit
    using pre [of "nat limit"]
    by (auto simp: get_sentiment_data_filter limit_rows_def order_by_desc_def)
  from a b show ?thesis by blast
qed

text \<open>
  Claim C8, amended. For an offset \<open>k\<close> and a limit \<open>L\<close> (counts), \<^verbatim>\<open>get_stocks\<close> and
  \<^verbatim>\<open>get_historical_prices\<close> skip the first \<open>k\<close> records of their ordered result and
  return at most \<open>L\<close>; \<^verbatim>\<open>get_sentiment_data\<close> takes a limit only and returns the
  first \<open>L\<close> records of its ordered result; \<^verbatim>\<open>get_trading_tips\<close> takes a limit and a
  page number and, for a page of at least 1, skips \<open>(page - 1) * L\<close> records and returns
  at most \<open>L\<close>.
\<close>

theorem listing_pagination:
  "get_stocks db (int k) (int L) = take L (drop k (stocks (store db)))
   \<and> length (get_stocks db (int k) (int L)) \<le> L
   \<and> get_historical_prices db stock_id start_date end_date (int k) (int L)
       = take L (drop k (order_by hp_date
           (filter (\<lambda>r. hp_stock_id r = stock_id \<and> hp_date r \<ge> start_date
                        \<and> hp_date r \<le> end_date) (historical_prices (store db)))))
   \<and> length (get_historical_prices db stock_id start_date end_date (int k) (int L)) \<le> L
   \<and> get_sentiment_data db stock_symbol from_date to_date (int L)
       = take L (order_by_desc sd_timestamp
           (filter (\<lambda>r. (truthy stock_symbol \<longrightarrow>
                            sd_stock_symbol r = map_option upper stock_symbol)
                       \<and> (\<forall>t. from_date = Some t \<longrightarrow> sd_timestamp r \<ge> t)
                       \<and> (\<forall>t. to_date = Some t \<longrightarrow> sd_timestamp r \<le> t))
              (sentiment_data (store db))))
   \<and> length (get_sentiment_data db stock_symbol from_date to_date (int L)) \<le> L
   \<and> (1 \<le> page \<longrightarrow>
        get_trading_tips db stock_symbol (int L) page
          = take L (drop (nat (page - 1) * L) (order_by_desc tt_timestamp
              (filter (\<lambda>r. truthy stock_symbol \<longrightarrow>
                             Some (tt_stock_symbol r) = map_option upper stock_symbol)
                 (trading_tips (store db)))))
        \<and> length (get_trading_tips db stock_symbol (int L) page) \<le> L)"
proof -
  have t: "get_trading_tips db stock_symbol (int L) page
          = take L (drop (nat (page - 1) * L) (order_by_desc tt_timestamp
              (filter (\<lambda>r. truthy stock_symbol \<longrightarrow>
                             Some (tt_stock_symbol r) = map_option upper stock_symbol)
                 (trading_tips (store db)))))" if "1 \<le> page"
    using that by (simp add: get_trading_tips_def Let_def limit_rows_int page_offset)
  show ?thesis
    by (simp add: get_stocks_def get_historical_prices_def get_sentiment_data_filter
          limit_rows_int offset_rows_int t)
qed

theorem listing_pagination_witness:
  "truthy (Some ''infy'') \<and> (1::int) \<le> 2
   \<and> get_trading_tips
       \<lparr>store = empty_database\<lparr>trading_tips :=
          [\<lparr>tt_id = Some 1, tt_timestamp = 10, tt_stock_symbol = ''INFY'', tt_tip_type = INTRADAY,
            tt_action = BUY, tt_reason = ''a'', tt_confidence_score = None\<rparr>,
           \<lparr>tt_id = Some 2, tt_timestamp = 30, tt_stock_symbol = ''TCS'', tt_tip_type = SWING,
            tt_action = SELL, tt_reason = ''b'', tt_confidence_score = None\<rparr>,
           \<lparr>tt_id = Some 3, tt_timestamp = 20, tt_stock_symbol = ''INFY'', tt_tip_type = OPTIONS,
            tt_action = HOLD, tt_reason = ''c'', tt_confidence_score = None\<rparr>]\<rparr>,
        pending = []\<rparr> (Some ''infy'') 1 2
     = [\<lparr>tt_id = Some 1, tt_timestamp = 10, tt_stock_symbol = ''INFY'', tt_tip_type = INTRADAY,
         tt_action = BUY, tt_reason = ''a'', tt_confidence_score = None\<rparr>]
   \<and> get_stocks
       \<lparr>store = empty_database\<lparr>stocks :=
          [\<lparr>s_id = Some 1, s_symbol = ''INFY'', s_name = ''Infosys'', s_exchange = NSE\<rparr>,
           \<lparr>s_id = Some 2, s_symbol = ''TCS'', s_name = ''Tata'', s_exchange = BSE\<rparr>,
           \<lparr>s_id = Some 3, s_symbol = ''WIPRO'', s_name = ''Wipro'', s_exchange = NSE\<rparr>]\<rparr>,
        pending = []\<rparr> 1 1
     = [\<lparr>s_id = Some 2, s_symbol = ''TCS'', s_name = ''Tata'', s_exchange = BSE\<rparr>]"
proof -
  have t: "truthy (Some ''infy'')"
    by (simp add: truthy_def)
  have u: "upper ''infy'' = ''INFY''"
    by code_simp
  have p: "(1::int) \<le> 2" by simp
  from listing_pagination [where L = 1 and page = 2 and stock_symbol = "Some ''infy''"
      and db = "\<lparr>store = empty_database\<lparr>trading_tips :=
          [\<lparr>tt_id = Some 1, tt_timestamp = 10, tt_stock_symbol = ''INFY'', tt_tip_type = INTRADAY,
            tt_action = BUY, tt_reason = ''a'', tt_confidence_score = None\<rparr>,
           \<lparr>tt_id = Some 2, tt_timestamp = 30, tt_stock_symbol = ''TCS'', tt_tip_type = SWING,
            tt_action = SELL, tt_reason = ''b'', tt_confidence_score = None\<rparr>,
           \<lparr>tt_id = Some 3, tt_timestamp = 20, tt_stock_symbol = ''INFY'', tt_tip_type = OPTIONS,
            tt_action = HOLD, tt_reason = ''c'', tt_confidence_score = None\<rparr>]\<rparr>,
        pending = []\<rparr>"] t u p
  have tips: "get_trading_tips
       \<lparr>store = empty_database\<lparr>trading_tips :=
          [\<lparr>tt_id = Some 1, tt_timestamp = 10, tt_stock_symbol = ''INFY'', tt_tip_type = INTRADAY,
            tt_action = BUY, tt_reason = ''a'', tt_confidence_score = None\<rparr>,
           \<lparr>tt_id = Some 2, tt_timestamp = 30, tt_stock_symbol = ''TCS'', tt_tip_type = SWING,
            tt_action = SELL, tt_reason = ''b'', tt_confidence_score = None\<rparr>,
           \<lparr>tt_id = Some 3, tt_timestamp = 20, tt_stock_symbol = ''INFY'', tt_tip_type = OPTIONS,
            tt_action = HOLD, tt_reason = ''c'', tt_confidence_score = None\<rparr>]\<rparr>,
        pending = []\<rparr> (Some ''infy'') 1 2
     = [\<lparr>tt_id = Some 1, tt_timestamp = 10, tt_stock_symbol = ''INFY'', tt_tip_type = INTRADAY,
         tt_action = BUY, tt_reason = ''a'', tt_confidence_score = None\<rparr>]"
    by (simp add: order_by_desc_def)
  from listing_pagination [where L = 1 and k = 1
      and db = "\<lparr>store = empty_database\<lparr>stocks :=
          [\<lparr>s_id = Some 1, s_symbol = ''INFY'', s_name = ''Infosys'', s_exchange = NSE\<rparr>,
           \<lparr>s_id = Some 2, s_symbol = ''TCS'', s_name = ''Tata'', s_exchange = BSE\<rparr>,
           \<lparr>s_id = Some 3, s_symbol = ''WIPRO'', s_name = ''Wipro'', s_exchange = NSE\<rparr>]\<rparr>,
        pending = []\<rparr>"]
  have st: "get_stocks
       \<lparr>store = empty_database\<lparr>stocks :=
          [\<lparr>s_id = Some 1, s_symbol = ''INFY'', s_name = ''Infosys'', s_exchange = NSE\<rparr>,
           \<lparr>s_id = Some 2, s_symbol = ''TCS'', s_name = ''Tata'', s_exchange = BSE\<rparr>,
           \<lparr>s_id = Some 3, s_symbol = ''WIPRO'', s_name = ''Wipro'', s_exchange = NSE\<rparr>]\<rparr>,
        pending = []\<rparr> 1 1
     = [\<lparr>s_id = Some 2, s_symbol = ''TCS'', s_name = ''Tata'', s_exchange = BSE\<rparr>]"
    by simp
  from t p tips st show ?thesis by blast
qed

section \<open>Bulk inserts\<close>

lemma flush_append2:
  "flush d (as @ bs) =
     (case flush d as of
        Inl e \<Rightarrow> Inl e
      | Inr (as', d') \<Rightarrow>
          (case flush d' bs of
             Inl e \<Rightarrow> Inl e
           | Inr (bs', d'') \<Rightarrow> Inr (as' @ bs', d'')))"
  by (induction as arbitrary: d) (auto split: sum.splits prod.splits)

lemma flush_historical_prices:
  "flush d (map EHistoricalPrice xs) = Inr (objs, d') \<Longrightarrow>
     \<exists>ys. list_all2 (\<lambda>x y. \<exists>i. y = x\<lparr>hp_id := Some i\<rparr>) xs ys
        \<and> d' = d\<lparr>historical_prices := historical_prices d @ ys\<rparr>"
proof (induction xs arbitrary: d objs)
  case Nil
  then show ?case by simp
next
  case (Cons x xs)
  from Cons.prems obtain i os where
    rest: "flush (d\<lparr>historical_prices := historical_prices d @ [x\<lparr>hp_id := Some i\<rparr>]\<rparr>)
             (map EHistoricalPrice xs) = Inr (os, d')"
    by (auto split: sum.splits prod.splits)
  from Cons.IH [OF rest] obtain ys where
    "list_all2 (\<lambda>x y. \<exists>i. y = x\<lparr>hp_id := Some i\<rparr>) xs ys"
    and "d' = d\<lparr>historical_prices := historical_prices d @ x\<lparr>hp_id := Some i\<rparr> # ys\<rparr>"
    by auto
  then show ?case
    by (intro exI [of _ "x\<lparr>hp_id := Some i\<rparr> # ys"]) auto
qed

lemma flush_live_prices:
  "flush d (map ELivePrice xs) = Inr (objs, d') \<Longrightarrow>
     \<exists>ys. list_all2 (\<lambda>x y. \<exists>i. y = x\<lparr>lp_id := Some i\<rparr>) xs ys
        \<and> d' = d\<lparr>live_prices := live_prices d @ ys\<rparr>"
proof (induction xs arbitrary: d objs)
  case Nil
  then show ?case by simp
next
  case (Cons x xs)
  from Cons.prems obtain i os where
    rest: "flush (d\<lparr>live_prices := live_prices d @ [x\<lparr>lp_id := Some i\<rparr>]\<rparr>)
             (map ELivePrice xs) = Inr (os, d')"
    by (auto split: sum.splits prod.splits)
  from Cons.IH [OF rest] obtain ys where
    "list_all2 (\<lambda>x y. \<exists>i. y = x\<lparr>lp_id := Some i\<rparr>) xs ys"
    and "d' = d\<lparr>live_prices := live_prices d @ x\<lparr>lp_id := Some i\<rparr> # ys\<rparr>"
    by auto
  then show ?case
    by (intro exI [of _ "x\<lparr>lp_id := Some i\<rparr> # ys"]) auto
qed

lemma flush_sentiment_data:
  "flush d (map ESentimentData xs) = Inr (objs, d') \<Longrightarrow>
     \<exists>ys. list_all2 (\<lambda>x y. \<exists>i. y = x\<lparr>sd_id := Some i\<rparr>) xs ys
        \<and> d' = d\<lparr>sentiment_data := sentiment_data d @ ys\<rparr>"
proof (induction xs arbitrary: d objs)
  case Nil
  then show ?case by simp
next
  case (Cons x xs)
  from Cons.prems obtain i os where
    rest: "flush (d\<lparr>sentiment_data := sentiment_data d @ [x\<lparr>sd_id := Some i\<rparr>]\<rparr>)
             (map ESentimentData xs) = Inr (os, d')"
    by (auto split: sum.splits prod.splits)
  from Cons.IH [OF rest] obtain ys where
    "list_all2 (\<lambda>x y. \<exists>i. y = x\<lparr>sd_id := Some i\<rparr>) xs ys"
    and "d' = d\<lparr>sentiment_data := sentiment_data d @ x\<lparr>sd_id := Some i\<rparr> # ys\<rparr>"
    by auto
  then show ?case
    by (intro exI [of _ "x\<lparr>sd_id := Some i\<rparr> # ys"]) auto
qed

lemma flush_trading_tips:
  "flush d (map ETradingTip xs) = Inr (objs, d') \<Longrightarrow>
     \<exists>ys. list_all2 (\<lambda>x y. \<exists>i. y = x\<lparr>tt_id := Some i\<rparr>) xs ys
        \<and> d' = d\<lparr>trading_tips := trading_tips d @ ys\<rparr>"
proof (induction xs arbitrary: d objs)
  case Nil
  then show ?case by simp
next
  case (Cons x xs)
  from Cons.prems obtain i os where
    rest: "flush (d\<lparr>trading_tips := trading_tips d @ [x\<lparr>tt_id := Some i\<rparr>]\<rparr>)
             (map ETradingTip xs) = Inr (os, d')"
    by (auto split: sum.splits prod.splits)
  from Cons.IH [OF rest] obtain ys where
    "list_all2 (\<lambda>x y. \<exists>i. y = x\<lparr>tt_id := Some i\<rparr>) xs ys"
    and "d' = d\<lparr>trading_tips := trading_tips d @ x\<lparr>tt_id := Some i\<rparr> # ys\<rparr>"
    by auto
  then show ?case
    by (intro exI [of _ "x\<lparr>tt_id := Some i\<rparr> # ys"]) auto
qed

lemma commit_add_all_error:
  "commit (add_all db objs) = (Inl e, db') \<Longrightarrow> store db' = store db \<and> pending db' = []"
  by (auto simp: commit_def add_all_def split: sum.splits prod.splits)

lemma commit_add_all_success:
  "commit (add_all db objs) = (Inr res, db') \<Longrightarrow>
     \<exists>staged d news. flush (store db) (pending db) = Inr (staged, d)
        \<and> flush d objs = Inr (news, store db') \<and> pending db' = []"
  by (auto simp: commit_def add_all_def flush_append2 split: sum.splits prod.splits)

lemma add_historical_prices_bulk_error:
  "add_historical_prices_bulk db prices = (Inl e, db') \<Longrightarrow> store db' = store db"
  by (auto simp: add_historical_prices_bulk_def split: sum.splits prod.splits
           dest: commit_add_all_error)

lemma add_historical_prices_bulk_success:
  assumes "add_historical_prices_bulk db prices = (Inr u, db')"
  shows "\<exists>staged d ys. flush (store db) (pending db) = Inr (staged, d)
           \<and> list_all2 (\<lambda>x y. \<exists>i. y = x\<lparr>hp_id := Some i\<rparr>) prices ys
           \<and> store db' = d\<lparr>historical_prices := historical_prices d @ ys\<rparr>"
proof -
  from assms obtain res where "commit (add_all db (map EHistoricalPrice prices)) = (Inr res, db')"
    by (auto simp: add_historical_prices_bulk_def split: sum.splits prod.splits)
  from commit_add_all_success [OF this] obtain staged d news where
    "flush (store db) (pending db) = Inr (staged, d)"
    and "flush d (map EHistoricalPrice prices) = Inr (news, store db')"
    by blast
  with flush_historical_prices show ?thesis by blast
qed

lemma add_live_prices_bulk_error:
  "add_live_prices_bulk db prices = (Inl e, db') \<Longrightarrow> store db' = store db"
  by (auto simp: add_live_prices_bulk_def split: sum.splits prod.splits
           dest: commit_add_all_error)

lemma add_live_prices_bulk_success:
  assumes "add_live_prices_bulk db prices = (Inr u, db')"
  shows "\<exists>staged d ys. flush (store db) (pending db) = Inr (staged, d)
           \<and> list_all2 (\<lambda>x y. \<exists>i. y = x\<lparr>lp_id := Some i\<rparr>) prices ys
           \<and> store db' = d\<lparr>live_prices := live_prices d @ ys\<rparr>"
proof -
  from assms obtain res where "commit (add_all db (map ELivePrice prices)) = (Inr res, db')"
    by (auto simp: add_live_prices_bulk_def split: sum.splits prod.splits)
  from commit_add_all_success [OF this] obtain staged d news where
    "flush (store db) (pending db) = Inr (staged, d)"
    and "flush d (map ELivePrice prices) = Inr (news, store db')"
    by blast
  with flush_live_prices show ?thesis by blast
qed

lemma add_sentiment_data_bulk_error:
  "add_sentiment_data_bulk db sentiments = (Inl e, db') \<Longrightarrow> store db' = store db"
  by (auto simp: add_sentiment_data_bulk_def split: sum.splits prod.splits
           dest: commit_add_all_error)

lemma add_sentiment_data_bulk_success:
  assumes "add_sentiment_data_bulk db sentiments = (Inr u, db')"
  shows "\<exists>staged d ys. flush (store db) (pending db) = Inr (staged, d)
           \<and> list_all2 (\<lambda>x y. \<exists>i. y = x\<lparr>sd_id := Some i\<rparr>) sentiments ys
           \<and> store db' = d\<lparr>sentiment_data := sentiment_data d @ ys\<rparr>"
proof -
  from assms obtain res where "commit (add_all db (map ESentimentData sentiments)) = (Inr res, db')"
    by (auto simp: add_sentiment_data_bulk_def split: sum.splits prod.splits)
  from commit_add_all_success [OF this] obtain staged d news where
    "flush (store db) (pending db) = Inr (staged, d)"
    and "flush d (map ESentimentData sentiments) = Inr (news, store db')"
    by blast
  with flush_sentiment_data show ?thesis by blast
qed

lemma add_trading_tips_bulk_error:
  "add_trading_tips_bulk db tips = (Inl e, db') \<Longrightarrow> store db' = store db"
  by (auto simp: add_trading_tips_bulk_def split: sum.splits prod.splits
           dest: commit_add_all_error)

lemma add_trading_tips_bulk_success:
  assumes "add_trading_tips_bulk db tips = (Inr u, db')"
  shows "\<exists>staged d ys. flush (store db) (pending db) = Inr (staged, d)
           \<and> list_all2 (\<lambda>x y. \<exists>i. y = x\<lparr>tt_id := Some i\<rparr>) tips ys
           \<and> store db' = d\<lparr>trading_tips := trading_tips d @ ys\<rparr>"
proof -
  from assms obtain res where "commit (add_all db (map ETradingTip tips)) = (Inr res, db')"
    by (auto simp: add_trading_tips_bulk_def split: sum.splits prod.splits)
  from commit_add_all_success [OF this] obtain staged d news where
    "flush (store db) (pending db) = Inr (staged, d)"
    and "flush d (map ETradingTip tips) = Inr (news, store db')"
    by blast
  with flush_trading_tips show ?thesis by blast
qed

text \<open>
  Claim C7. Each bulk insert stages its list and commits once. When the commit raises,
  the tables are as they were before the call: no record of the list is stored, and none
  of the objects staged earlier either. When it returns, every record of the list has
  been appended to its table, in the order of the list and with its key filled in, after
  the objects that were staged before the call.
\<close>

theorem bulk_insert_all_or_nothing:
  "(add_historical_prices_bulk db hps = (Inl e, db') \<longrightarrow> store db' = store db)
   \<and> (add_historical_prices_bulk db hps = (Inr u, db') \<longrightarrow>
        (\<exists>staged d ys. flush (store db) (pending db) = Inr (staged, d)
           \<and> list_all2 (\<lambda>x y. \<exists>i. y = x\<lparr>hp_id := Some i\<rparr>) hps ys
           \<and> store db' = d\<lparr>historical_prices := historical_prices d @ ys\<rparr>))
   \<and> (add_live_prices_bulk db lps = (Inl e, db') \<longrightarrow> store db' = store db)
   \<and> (add_live_prices_bulk db lps = (Inr u, db') \<longrightarrow>
        (\<exists>staged d ys. flush (store db) (pending db) = Inr (staged, d)
           \<and> list_all2 (\<lambda>x y. \<exists>i. y = x\<lparr>lp_id := Some i\<rparr>) lps ys
           \<and> store db' = d\<lparr>live_prices := live_prices d @ ys\<rparr>))
   \<and> (add_sentiment_data_bulk db sentiments = (Inl e, db') \<longrightarrow> store db' = store db)
   \<and> (add_sentiment_data_bulk db sentiments = (Inr u, db') \<longrightarrow>
        (\<exists>staged d ys. flush (store db) (pending db) = Inr (staged, d)
           \<and> list_all2 (\<lambda>x y. \<exists>i. y = x\<lparr>sd_id := Some i\<rparr>) sentiments ys
           \<and> store db' = d\<lparr>sentiment_data := sentiment_data d @ ys\<rparr>))
   \<and> (add_trading_tips_bulk db tips = (Inl e, db') \<longrightarrow> store db' = store db)
   \<and> (add_trading_tips_bulk db tips = (Inr u, db') \<longrightarrow>
        (\<exists>staged d ys. flush (store db) (pending db) = Inr (staged, d)
           \<and> list_all2 (\<lambda>x y. \<exists>i. y = x\<lparr>tt_id := Some i\<rparr>) tips ys
           \<and> store db' = d\<lparr>trading_tips := trading_tips d @ ys\<rparr>))"
proof (intro conjI impI)
  assume "add_historical_prices_bulk db hps = (Inl e, db')"
  then show "store db' = store db" by (rule add_historical_prices_bulk_error)
next
  assume "add_historical_prices_bulk db hps = (Inr u, db')"
  then show "\<exists>staged d ys. flush (store db) (pending db) = Inr (staged, d)
           \<and> list_all2 (\<lambda>x y. \<exists>i. y = x\<lparr>hp_id := Some i\<rparr>) hps ys
           \<and> store db' = d\<lparr>historical_prices := historical_prices d @ ys\<rparr>"
    by (rule add_historical_prices_bulk_success)
next
  assume "add_live_prices_bulk db lps = (Inl e, db')"
  then show "store db' = store db" by (rule add_live_prices_bulk_error)
next
  assume "add_live_prices_bulk db lps = (Inr u, db')"
  then show "\<exists>staged d ys. flush (store db) (pending db) = Inr (staged, d)
           \<and> list_all2 (\<lambda>x y. \<exists>i. y = x\<lparr>lp_id := Some i\<rparr>) lps ys
           \<and> store db' = d\<lparr>live_prices := live_prices d @ ys\<rparr>"
    by (rule add_live_prices_bulk_success)
next
  assume "add_sentiment_data_bulk db sentiments = (Inl e, db')"
  then show "store db' = store db" by (rule add_sentiment_data_bulk_error)
next
  assume "add_sentiment_data_bulk db sentiments = (Inr u, db')"
  then show "\<exists>staged d ys. flush (store db) (pending db) = Inr (staged, d)
           \<and> list_all2 (\<lambda>x y. \<exists>i. y = x\<lparr>sd_id := Some i\<rparr>) sentiments ys
           \<and> store db' = d\<lparr>sentiment_data := sentiment_data d @ ys\<rparr>"
    by (rule add_sentiment_data_bulk_success)
next
  assume "add_trading_tips_bulk db tips = (Inl e, db')"
  then show "store db' = store db" by (rule add_trading_tips_bulk_error)
next
  assume "add_trading_tips_bulk db tips = (Inr u, db')"
  then show "\<exists>staged d ys. flush (store db) (pending db) = Inr (staged, d)
           \<and> list_all2 (\<lambda>x y. \<exists>i. y = x\<lparr>tt_id := Some i\<rparr>) tips ys
           \<and> store db' = d\<lparr>trading_tips := trading_tips d @ ys\<rparr>"
    by (rule add_trading_tips_bulk_success)
qed

text \<open>
  In a database with one row of key 1 in each table, a bulk insert of a record with the
  free key 5 followed by a record with the key 1 raises on the second record, and the
  first is not stored either. On a fresh database a bulk insert of a record without a key
  stores it with the key 1.
\<close>

theorem bulk_insert_all_or_nothing_witness:
  "add_historical_prices_bulk one_row_session
        [\<lparr>hp_id = Some 5, hp_stock_id = 1, hp_date = 2, hp_open = 1, hp_high = 2, hp_low = 1,
          hp_close = 2, hp_volume = 10\<rparr>,
         \<lparr>hp_id = Some 1, hp_stock_id = 1, hp_date = 3, hp_open = 1, hp_high = 2, hp_low = 1,
          hp_close = 2, hp_volume = 10\<rparr>]
     = (Inl (IntegrityError PrimaryKey), one_row_session)
   \<and> store (snd (add_historical_prices_bulk one_row_session
        [\<lparr>hp_id = Some 5, hp_stock_id = 1, hp_date = 2, hp_open = 1, hp_high = 2, hp_low = 1,
          hp_close = 2, hp_volume = 10\<rparr>,
         \<lparr>hp_id = Some 1, hp_stock_id = 1, hp_date = 3, hp_open = 1, hp_high = 2, hp_low = 1,
          hp_close = 2, hp_volume = 10\<rparr>])) = store one_row_session
   \<and> add_historical_prices_bulk empty_session
        [\<lparr>hp_id = None, hp_stock_id = 1, hp_date = 2, hp_open = 1, hp_high = 2, hp_low = 1,
          hp_close = 2, hp_volume = 10\<rparr>]
     = (Inr (), \<lparr>store = empty_database\<lparr>historical_prices :=
         [\<lparr>hp_id = Some 1, hp_stock_id = 1, hp_date = 2, hp_open = 1, hp_high = 2, hp_low = 1,
          hp_close = 2, hp_volume = 10\<rparr>]\<rparr>,
        pending = []\<rparr>)
   \<and> add_live_prices_bulk one_row_session
        [\<lparr>lp_id = Some 5, lp_stock_id = 1, lp_timestamp = 2, lp_price = 2, lp_volume = 10\<rparr>,
         \<lparr>lp_id = Some 1, lp_stock_id = 1, lp_timestamp = 3, lp_price = 2, lp_volume = 10\<rparr>]
     = (Inl (IntegrityError PrimaryKey), one_row_session)
   \<and> store (snd (add_live_prices_bulk one_row_session
        [\<lparr>lp_id = Some 5, lp_stock_id = 1, lp_timestamp = 2, lp_price = 2, lp_volume = 10\<rparr>,
         \<lparr>lp_id = Some 1, lp_stock_id = 1, lp_timestamp = 3, lp_price = 2, lp_volume = 10\<rparr>])) = store one_row_session
   \<and> add_live_prices_bulk empty_session
        [\<lparr>lp_id = None, lp_stock_id = 1, lp_timestamp = 2, lp_price = 2, lp_volume = 10\<rparr>]
     = (Inr (), \<lparr>store = empty_database\<lparr>live_prices :=
         [\<lparr>lp_id = Some 1, lp_stock_id = 1, lp_timestamp = 2, lp_price = 2, lp_volume = 10\<rparr>]\<rparr>,
        pending = []\<rparr>)
   \<and> add_sentiment_data_bulk one_row_session
        [\<lparr>sd_id = Some 5, sd_source = ''NewsAPI'', sd_timestamp = 2, sd_text = None,
          sd_sentiment_score = 0, sd_stock_symbol = Some ''INFY''\<rparr>,
         \<lparr>sd_id = Some 1, sd_source = ''NewsAPI'', sd_timestamp = 3, sd_text = None,
          sd_sentiment_score = 0, sd_stock_symbol = Some ''INFY''\<rparr>]
     = (Inl (IntegrityError PrimaryKey), one_row_session)
   \<and> store (snd (add_sentiment_data_bulk one_row_session
        [\<lparr>sd_id = Some 5, sd_source = ''NewsAPI'', sd_timestamp = 2, sd_text = None,
          sd_sentiment_score = 0, sd_stock_symbol = Some ''INFY''\<rparr>,
         \<lparr>sd_id = Some 1, sd_source = ''NewsAPI'', sd_timestamp = 3, sd_text = None,
          sd_sentiment_score = 0, sd_stock_symbol = Some ''INFY''\<rparr>])) = store one_row_session
   \<and> add_sentiment_data_bulk empty_session
        [\<lparr>sd_id = None, sd_source = ''NewsAPI'', sd_timestamp = 2, sd_text = None,
          sd_sentiment_score = 0, sd_stock_symbol = Some ''INFY''\<rparr>]
     = (Inr (), \<lparr>store = empty_database\<lparr>sentiment_data :=
         [\<lparr>sd_id = Some 1, sd_source = ''NewsAPI'', sd_timestamp = 2, sd_text = None,
          sd_sentiment_score = 0, sd_stock_symbol = Some ''INFY''\<rparr>]\<rparr>,
        pending = []\<rparr>)
   \<and> add_trading_tips_bulk one_row_session
        [\<lparr>tt_id = Some 5, tt_timestamp = 2, tt_stock_symbol = ''INFY'', tt_tip_type = SWING,
          tt_action = BUY, tt_reason = ''r'', tt_confidence_score = None\<rparr>,
         \<lparr>tt_id = Some 1, tt_timestamp = 3, tt_stock_symbol = ''INFY'', tt_tip_type = SWING,
          tt_action = BUY, tt_reason = ''r'', tt_confidence_score = None\<rparr>]
     = (Inl (IntegrityError PrimaryKey), one_row_session)
   \<and> store (snd (add_trading_tips_bulk one_row_session
        [\<lparr>tt_id = Some 5, tt_timestamp = 2, tt_stock_symbol = ''INFY'', tt_tip_type = SWING,
          tt_action = BUY, tt_reason = ''r'', tt_confidence_score = None\<rparr>,
         \<lparr>tt_id = Some 1, tt_timestamp = 3, tt_stock_symbol = ''INFY'', tt_tip_type = SWING,
          tt_action = BUY, tt_reason = ''r'', tt_confidence_score = None\<rparr>])) = store one_row_session
   \<and> add_trading_tips_bulk empty_session
        [\<lparr>tt_id = None, tt_timestamp = 2, tt_stock_symbol = ''INFY'', tt_tip_type = SWING,
          tt_action = BUY, tt_reason = ''r'', tt_confidence_score = None\<rparr>]
     = (Inr (), \<lparr>store = empty_database\<lparr>trading_tips :=
         [\<lparr>tt_id = Some 1, tt_timestamp = 2, tt_stock_symbol = ''INFY'', tt_tip_type = SWING,
          tt_action = BUY, tt_reason = ''r'', tt_confidence_score = None\<rparr>]\<rparr>,
        pending = []\<rparr>)"
proof -
  have e0: "add_historical_prices_bulk one_row_session
        [\<lparr>hp_id = Some 5, hp_stock_id = 1, hp_date = 2, hp_open = 1, hp_high = 2, hp_low = 1,
          hp_close = 2, hp_volume = 10\<rparr>,
         \<lparr>hp_id = Some 1, hp_stock_id = 1, hp_date = 3, hp_open = 1, hp_high = 2, hp_low = 1,
          hp_close = 2, hp_volume = 10\<rparr>]
     = (Inl (IntegrityError PrimaryKey), one_row_session)"
    by (simp add: add_historical_prices_bulk_def add_live_prices_bulk_def add_sentiment_data_bulk_def
        add_trading_tips_bulk_def add_all_def commit_def assign_id_def next_id_def
        empty_session_def empty_database_def one_row_session_def)
  have g0: "add_historical_prices_bulk empty_session
        [\<lparr>hp_id = None, hp_stock_id = 1, hp_date = 2, hp_open = 1, hp_high = 2, hp_low = 1,
          hp_close = 2, hp_volume = 10\<rparr>]
     = (Inr (), \<lparr>store = empty_database\<lparr>historical_prices :=
         [\<lparr>hp_id = Some 1, hp_stock_id = 1, hp_date = 2, hp_open = 1, hp_high = 2, hp_low = 1,
          hp_close = 2, hp_volume = 10\<rparr>]\<rparr>,
        pending = []\<rparr>)"
    by (simp add: add_historical_prices_bulk_def add_live_prices_bulk_def add_sentiment_data_bulk_def
        add_trading_tips_bulk_def add_all_def commit_def assign_id_def next_id_def
        empty_session_def empty_database_def one_row_session_def)
  from bulk_insert_all_or_nothing [where db = one_row_session and hps = "[\<lparr>hp_id = Some 5, hp_stock_id = 1, hp_date = 2, hp_open = 1, hp_high = 2, hp_low = 1,
          hp_close = 2, hp_volume = 10\<rparr>,
         \<lparr>hp_id = Some 1, hp_stock_id = 1, hp_date = 3, hp_open = 1, hp_high = 2, hp_low = 1,
          hp_close = 2, hp_volume = 10\<rparr>]"
      and e = "IntegrityError PrimaryKey" and db' = one_row_session] e0
  have u0: "store (snd (add_historical_prices_bulk one_row_session
        [\<lparr>hp_id = Some 5, hp_stock_id = 1, hp_date = 2, hp_open = 1, hp_high = 2, hp_low = 1,
          hp_close = 2, hp_volume = 10\<rparr>,
         \<lparr>hp_id = Some 1, hp_stock_id = 1, hp_date = 3, hp_open = 1, hp_high = 2, hp_low = 1,
          hp_close = 2, hp_volume = 10\<rparr>])) = store one_row_session"
    by (simp only: snd_conv)
  have e1: "add_live_prices_bulk one_row_session
        [\<lparr>lp_id = Some 5, lp_stock_id = 1, lp_timestamp = 2, lp_price = 2, lp_volume = 10\<rparr>,
         \<lparr>lp_id = Some 1, lp_stock_id = 1, lp_timestamp = 3, lp_price = 2, lp_volume = 10\<rparr>]
     = (Inl (IntegrityError PrimaryKey), one_row_session)"
    by (simp add: add_historical_prices_bulk_def add_live_prices_bulk_def add_sentiment_data_bulk_def
        add_trading_tips_bulk_def add_all_def commit_def assign_id_def next_id_def
        empty_session_def empty_database_def one_row_session_def)
  have g1: "add_live_prices_bulk empty_session
        [\<lparr>lp_id = None, lp_stock_id = 1, lp_timestamp = 2, lp_price = 2, lp_volume = 10\<rparr>]
     = (Inr (), \<lparr>store = empty_database\<lparr>live_prices :=
         [\<lparr>lp_id = Some 1, lp_stock_id = 1, lp_timestamp = 2, lp_price = 2, lp_volume = 10\<rparr>]\<rparr>,
        pending = []\<rparr>)"
    by (simp add: add_historical_prices_bulk_def add_live_prices_bulk_def add_sentiment_data_bulk_def
        add_trading_tips_bulk_def add_all_def commit_def assign_id_def next_id_def
        empty_session_def empty_database_def one_row_session_def)
  from bulk_insert_all_or_nothing [where db = one_row_session and lps = "[\<lparr>lp_id = Some 5, lp_stock_id = 1, lp_timestamp = 2, lp_price = 2, lp_volume = 10\<rparr>,
         \<lparr>lp_id = Some 1, lp_stock_id = 1, lp_timestamp = 3, lp_price = 2, lp_volume = 10\<rparr>]"
      and e = "IntegrityError PrimaryKey" and db' = one_row_session] e1
  have u1: "store (snd (add_live_prices_bulk one_row_session
        [\<lparr>lp_id = Some 5, lp_stock_id = 1, lp_timestamp = 2, lp_price = 2, lp_volume = 10\<rparr>,
         \<lparr>lp_id = Some 1, lp_stock_id = 1, lp_timestamp = 3, lp_price = 2, lp_volume = 10\<rparr>])) = store one_row_session"
    by (simp only: snd_conv)
  have e2: "add_sentiment_data_bulk one_row_session
        [\<lparr>sd_id = Some 5, sd_source = ''NewsAPI'', sd_timestamp = 2, sd_text = None,
          sd_sentiment_score = 0, sd_stock_symbol = Some ''INFY''\<rparr>,
         \<lparr>sd_id = Some 1, sd_source = ''NewsAPI'', sd_timestamp = 3, sd_text = None,
          sd_sentiment_score = 0, sd_stock_symbol = Some ''INFY''\<rparr>]
     = (Inl (IntegrityError PrimaryKey), one_row_session)"
    by (simp add: add_historical_prices_bulk_def add_live_prices_bulk_def add_sentiment_data_bulk_def
        add_trading_tips_bulk_def add_all_def commit_def assign_id_def next_id_def
        empty_session_def empty_database_def one_row_session_def)
  have g2: "add_sentiment_data_bulk empty_session
        [\<lparr>sd_id = None, sd_source = ''NewsAPI'', sd_timestamp = 2, sd_text = None,
          sd_sentiment_score = 0, sd_stock_symbol = Some ''INFY''\<rparr>]
     = (Inr (), \<lparr>store = empty_database\<lparr>sentiment_data :=
         [\<lparr>sd_id = Some 1, sd_source = ''NewsAPI'', sd_timestamp = 2, sd_text = None,
          sd_sentiment_score = 0, sd_stock_symbol = Some ''INFY''\<rparr>]\<rparr>,
        pending = []\<rparr>)"
    by (simp add: add_historical_prices_bulk_def add_live_prices_bulk_def add_sentiment_data_bulk_def
        add_trading_tips_bulk_def add_all_def commit_def assign_id_def next_id_def
        empty_session_def empty_database_def one_row_session_def)
  from bulk_insert_all_or_nothing [where db = one_row_session and sentiments = "[\<lparr>sd_id = Some 5, sd_source = ''NewsAPI'', sd_timestamp = 2, sd_text = None,
          sd_sentiment_score = 0, sd_stock_symbol = Some ''INFY''\<rparr>,
         \<lparr>sd_id = Some 1, sd_source = ''NewsAPI'', sd_timestamp = 3, sd_text = None,
          sd_sentiment_score = 0, sd_stock_symbol = Some ''INFY''\<rparr>]"
      and e = "IntegrityError PrimaryKey" and db' = one_row_session] e2
  have u2: "store (snd (add_sentiment_data_bulk one_row_session
        [\<lparr>sd_id = Some 5, sd_source = ''NewsAPI'', sd_timestamp = 2, sd_text = None,
          sd_sentiment_score = 0, sd_stock_symbol = Some ''INFY''\<rparr>,
         \<lparr>sd_id = Some 1, sd_source = ''NewsAPI'', sd_timestamp = 3, sd_text = None,
          sd_sentiment_score = 0, sd_stock_symbol = Some ''INFY''\<rparr>])) = store one_row_session"
    by (simp only: snd_conv)
  have e3: "add_trading_tips_bulk one_row_session
        [\<lparr>tt_id = Some 5, tt_timestamp = 2, tt_stock_symbol = ''INFY'', tt_tip_type = SWING,
          tt_action = BUY, tt_reason = ''r'', tt_confidence_score = None\<rparr>,
         \<lparr>tt_id = Some 1, tt_timestamp = 3, tt_stock_symbol = ''INFY'', tt_tip_type = SWING,
          tt_action = BUY, tt_reason = ''r'', tt_confidence_score = None\<rparr>]
     = (Inl (IntegrityError PrimaryKey), one_row_session)"
    by (simp add: add_historical_prices_bulk_def add_live_prices_bulk_def add_sentiment_data_bulk_def
        add_trading_tips_bulk_def add_all_def commit_def assign_id_def next_id_def
        empty_session_def empty_database_def one_row_session_def)
  have g3: "add_trading_tips_bulk empty_session
        [\<lparr>tt_id = None, tt_timestamp = 2, tt_stock_symbol = ''INFY'', tt_tip_type = SWING,
          tt_action = BUY, tt_reason = ''r'', tt_confidence_score = None\<rparr>]
     = (Inr (), \<lparr>store = empty_database\<lparr>trading_tips :=
         [\<lparr>tt_id = Some 1, tt_timestamp = 2, tt_stock_symbol = ''INFY'', tt_tip_type = SWING,
          tt_action = BUY, tt_reason = ''r'', tt_confidence_score = None\<rparr>]\<rparr>,
        pending = []\<rparr>)"
    by (simp add: add_historical_prices_bulk_def add_live_prices_bulk_def add_sentiment_data_bulk_def
        add_trading_tips_bulk_def add_all_def commit_def assign_id_def next_id_def
        empty_session_def empty_database_def one_row_session_def)
  from bulk_insert_all_or_nothing [where db = one_row_session and tips = "[\<lparr>tt_id = Some 5, tt_timestamp = 2, tt_stock_symbol = ''INFY'', tt_tip_type = SWING,
          tt_action = BUY, tt_reason = ''r'', tt_confidence_score = None\<rparr>,
         \<lparr>tt_id = Some 1, tt_timestamp = 3, tt_stock_symbol = ''INFY'', tt_tip_type = SWING,
          tt_action = BUY, tt_reason = ''r'', tt_confidence_score = None\<rparr>]"
      and e = "IntegrityError PrimaryKey" and db' = one_row_session] e3
  have u3: "store (snd (add_trading_tips_bulk one_row_session
        [\<lparr>tt_id = Some 5, tt_timestamp = 2, tt_stock_symbol = ''INFY'', tt_tip_type = SWING,
          tt_action = BUY, tt_reason = ''r'', tt_confidence_score = None\<rparr>,
         \<lparr>tt_id = Some 1, tt_timestamp = 3, tt_stock_symbol = ''INFY'', tt_tip_type = SWING,
          tt_action = BUY, tt_reason = ''r'', tt_confidence_score = None\<rparr>])) = store one_row_session"
    by (simp only: snd_conv)
  from e0 u0 g0 e1 u1 g1 e2 u2 g2 e3 u3 g3 show ?thesis
    by (intro conjI)
qed

section \<open>Bulk inserts and the symbol filters\<close>

lemma set_limit_rows: "set (limit_rows n rows) \<subseteq> set rows"
  by (simp add: limit_rows_def set_take_subset)

lemma set_offset_rows: "set (offset_rows n rows) \<subseteq> set rows"
  by (simp add: offset_rows_def set_drop_subset)

lemma upper_char_idem: "upper_char (upper_char c) = upper_char c"
  by (auto simp: upper_char_def Let_def)

lemma upper_idem: "upper (upper s) = upper s"
  by (simp add: upper_def upper_char_idem)

lemma get_sentiment_data_symbol:
  assumes "truthy f" and "r \<in> set (get_sentiment_data db f start_date end_date limit)"
  shows "sd_stock_symbol r = map_option upper f"
proof -
  let ?rows = "order_by_desc sd_timestamp
       (filter (\<lambda>r. (truthy f \<longrightarrow> sd_stock_symbol r = map_option upper f)
                   \<and> (\<forall>t. start_date = Some t \<longrightarrow> sd_timestamp r \<ge> t)
                   \<and> (\<forall>t. end_date = Some t \<longrightarrow> sd_timestamp r \<le> t))
          (sentiment_data (store db)))"
  from assms(2) have "r \<in> set (limit_rows limit ?rows)"
    by (simp only: get_sentiment_data_filter)
  with set_limit_rows [of limit ?rows] have "r \<in> set ?rows"
    by (rule_tac subsetD)
  with assms(1) show ?thesis
    by (simp add: order_by_desc_def)
qed

lemma get_trading_tips_symbol:
  assumes "truthy f" and "r \<in> set (get_trading_tips db f limit page)"
  shows "Some (tt_stock_symbol r) = map_option upper f"
proof -
  let ?rows = "order_by_desc tt_timestamp
      (filter (\<lambda>r. Some (tt_stock_symbol r) = map_option upper f) (trading_tips (store db)))"
  from assms have "r \<in> set (limit_rows limit (offset_rows ((page - 1) * limit) ?rows))"
    by (simp add: get_trading_tips_def Let_def)
  with set_limit_rows [of limit "offset_rows ((page - 1) * limit) ?rows"]
  have "r \<in> set (offset_rows ((page - 1) * limit) ?rows)"
    by (rule_tac subsetD)
  with set_offset_rows [of "(page - 1) * limit" ?rows] have "r \<in> set ?rows"
    by (rule_tac subsetD)
  then show ?thesis
    by (simp add: order_by_desc_def)
qed

lemma flush_historical_prices_total:
  "\<forall>x \<in> set xs. hp_id x = None \<Longrightarrow>
     \<exists>objs ys. flush d (map EHistoricalPrice xs)
                  = Inr (objs, d\<lparr>historical_prices := historical_prices d @ ys\<rparr>)
        \<and> list_all2 (\<lambda>x y. \<exists>i. y = x\<lparr>hp_id := Some i\<rparr>) xs ys"
proof (induction xs arbitrary: d)
  case Nil
  then show ?case by simp
next
  case (Cons x xs)
  let ?y = "x\<lparr>hp_id := Some (next_id (List.map_filter hp_id (historical_prices d)))\<rparr>"
  let ?d1 = "d\<lparr>historical_prices := historical_prices d @ [?y]\<rparr>"
  from Cons.prems have ins: "insert_entity d (EHistoricalPrice x) = Inr (EHistoricalPrice ?y, ?d1)"
    by (simp add: assign_id_def)
  from Cons.prems have "\<forall>x \<in> set xs. hp_id x = None"
    by simp
  from Cons.IH [OF this, of ?d1] obtain objs ys where
    fl: "flush ?d1 (map EHistoricalPrice xs)
           = Inr (objs, ?d1\<lparr>historical_prices := historical_prices ?d1 @ ys\<rparr>)"
    and rel: "list_all2 (\<lambda>x y. \<exists>i. y = x\<lparr>hp_id := Some i\<rparr>) xs ys"
    by blast
  have "flush d (map EHistoricalPrice (x # xs))
          = Inr (EHistoricalPrice ?y # objs,
                 d\<lparr>historical_prices := historical_prices d @ ?y # ys\<rparr>)"
    using ins fl by simp
  moreover have "list_all2 (\<lambda>x y. \<exists>i. y = x\<lparr>hp_id := Some i\<rparr>) (x # xs) (?y # ys)"
    using rel by auto
  ultimately show ?case by blast
qed

lemma add_historical_prices_bulk_total:
  assumes "flush (store db) (pending db) = Inr (staged, d)"
    and "\<forall>x \<in> set prices. hp_id x = None"
  shows "\<exists>ys. add_historical_prices_bulk db prices
                = (Inr (), \<lparr>store = d\<lparr>historical_prices := historical_prices d @ ys\<rparr>,
                            pending = []\<rparr>)
           \<and> list_all2 (\<lambda>x y. \<exists>i. y = x\<lparr>hp_id := Some i\<rparr>) prices ys"
proof -
  from flush_historical_prices_total [OF assms(2), of d] obtain objs ys where
    fl: "flush d (map EHistoricalPrice prices)
           = Inr (objs, d\<lparr>historical_prices := historical_prices d @ ys\<rparr>)"
    and rel: "list_all2 (\<lambda>x y. \<exists>i. y = x\<lparr>hp_id := Some i\<rparr>) prices ys"
    by blast
  from assms(1) fl have "add_historical_prices_bulk db prices
                = (Inr (), \<lparr>store = d\<lparr>historical_prices := historical_prices d @ ys\<rparr>,
                            pending = []\<rparr>)"
    by (simp add: add_historical_prices_bulk_def commit_def add_all_def flush_append2)
  with rel show ?thesis by blast
qed

lemma flush_live_prices_total:
  "\<forall>x \<in> set xs. lp_id x = None \<Longrightarrow>
     \<exists>objs ys. flush d (map ELivePrice xs)
                  = Inr (objs, d\<lparr>live_prices := live_prices d @ ys\<rparr>)
        \<and> list_all2 (\<lambda>x y. \<exists>i. y = x\<lparr>lp_id := Some i\<rparr>) xs ys"
proof (induction xs arbitrary: d)
  case Nil
  then show ?case by simp
next
  case (Cons x xs)
  let ?y = "x\<lparr>lp_id := Some (next_id (List.map_filter lp_id (live_prices d)))\<rparr>"
  let ?d1 = "d\<lparr>live_prices := live_prices d @ [?y]\<rparr>"
  from Cons.prems have ins: "insert_entity d (ELivePrice x) = Inr (ELivePrice ?y, ?d1)"
    by (simp add: assign_id_def)
  from Cons.prems have "\<forall>x \<in> set xs. lp_id x = None"
    by simp
  from Cons.IH [OF this, of ?d1] obtain objs ys where
    fl: "flush ?d1 (map ELivePrice xs)
           = Inr (objs, ?d1\<lparr>live_prices := live_prices ?d1 @ ys\<rparr>)"
    and rel: "list_all2 (\<lambda>x y. \<exists>i. y = x\<lparr>lp_id := Some i\<rparr>) xs ys"
    by blast
  have "flush d (map ELivePrice (x # xs))
          = Inr (ELivePrice ?y # objs,
                 d\<lparr>live_prices := live_prices d @ ?y # ys\<rparr>)"
    using ins fl by simp
  moreover have "list_all2 (\<lambda>x y. \<exists>i. y = x\<lparr>lp_id := Some i\<rparr>) (x # xs) (?y # ys)"
    using rel by auto
  ultimately show ?case by blast
qed

lemma add_live_prices_bulk_total:
  assumes "flush (store db) (pending db) = Inr (staged, d)"
    and "\<forall>x \<in> set prices. lp_id x = None"
  shows "\<exists>ys. add_live_prices_bulk db prices
                = (Inr (), \<lparr>store = d\<lparr>live_prices := live_prices d @ ys\<rparr>,
                            pending = []\<rparr>)
           \<and> list_all2 (\<lambda>x y. \<exists>i. y = x\<lparr>lp_id := Some i\<rparr>) prices ys"
proof -
  from flush_live_prices_total [OF assms(2), of d] obtain objs ys where
    fl: "flush d (map ELivePrice prices)
           = Inr (objs, d\<lparr>live_prices := live_prices d @ ys\<rparr>)"
    and rel: "list_all2 (\<lambda>x y. \<exists>i. y = x\<lparr>lp_id := Some i\<rparr>) prices ys"
    by blast
  from assms(1) fl have "add_live_prices_bulk db prices
                = (Inr (), \<lparr>store = d\<lparr>live_prices := live_prices d @ ys\<rparr>,
                            pending = []\<rparr>)"
    by (simp add: add_live_prices_bulk_def commit_def add_all_def flush_append2)
  with rel show ?thesis by blast
qed

lemma flush_sentiment_data_total:
  "\<forall>x \<in> set xs. sd_id x = None \<Longrightarrow>
     \<exists>objs ys. flush d (map ESentimentData xs)
                  = Inr (objs, d\<lparr>sentiment_data := sentiment_data d @ ys\<rparr>)
        \<and> list_all2 (\<lambda>x y. \<exists>i. y = x\<lparr>sd_id := Some i\<rparr>) xs ys"
proof (induction xs arbitrary: d)
  case Nil
  then show ?case by simp
next
  case (Cons x xs)
  let ?y = "x\<lparr>sd_id := Some (next_id (List.map_filter sd_id (sentiment_data d)))\<rparr>"
  let ?d1 = "d\<lparr>sentiment_data := sentiment_data d @ [?y]\<rparr>"
  from Cons.prems have ins: "insert_entity d (ESentimentData x) = Inr (ESentimentData ?y, ?d1)"
    by (simp add: assign_id_def)
  from Cons.prems have "\<forall>x \<in> set xs. sd_id x = None"
    by simp
  from Cons.IH [OF this, of ?d1] obtain objs ys where
    fl: "flush ?d1 (map ESentimentData xs)
           = Inr (objs, ?d1\<lparr>sentiment_data := sentiment_data ?d1 @ ys\<rparr>)"
    and rel: "list_all2 (\<lambda>x y. \<exists>i. y = x\<lparr>sd_id := Some i\<rparr>) xs ys"
    by blast
  have "flush d (map ESentimentData (x # xs))
          = Inr (ESentimentData ?y # objs,
                 d\<lparr>sentiment_data := sentiment_data d @ ?y # ys\<rparr>)"
    using ins fl by simp
  moreover have "list_all2 (\<lambda>x y. \<exists>i. y = x\<lparr>sd_id := Some i\<rparr>) (x # xs) (?y # ys)"
    using rel by auto
  ultimately show ?case by blast
qed

lemma add_sentiment_data_bulk_total:
  assumes "flush (store db) (pending db) = Inr (staged, d)"
    and "\<forall>x \<in> set sentiments. sd_id x = None"
  shows "\<exists>ys. add_sentiment_data_bulk db sentiments
                = (Inr (), \<lparr>store = d\<lparr>sentiment_data := sentiment_data d @ ys\<rparr>,
                            pending = []\<rparr>)
           \<and> list_all2 (\<lambda>x y. \<exists>i. y = x\<lparr>sd_id := Some i\<rparr>) sentiments ys"
proof -
  from flush_sentiment_data_total [OF assms(2), of d] obtain objs ys where
    fl: "flush d (map ESentimentData sentiments)
           = Inr (objs, d\<lparr>sentiment_data := sentiment_data d @ ys\<rparr>)"
    and rel: "list_all2 (\<lambda>x y. \<exists>i. y = x\<lparr>sd_id := Some i\<rparr>) sentiments ys"
    by blast
  from assms(1) fl have "add_sentiment_data_bulk db sentiments
                = (Inr (), \<lparr>store = d\<lparr>sentiment_data := sentiment_data d @ ys\<rparr>,
                            pending = []\<rparr>)"
    by (simp add: add_sentiment_data_bulk_def commit_def add_all_def flush_append2)
  with rel show ?thesis by blast
qed

lemma flush_trading_tips_total:
  "\<forall>x \<in> set xs. tt_id x = None \<Longrightarrow>
     \<exists>objs ys. flush d (map ETradingTip xs)
                  = Inr (objs, d\<lparr>trading_tips := trading_tips d @ ys\<rparr>)
        \<and> list_all2 (\<lambda>x y. \<exists>i. y = x\<lparr>tt_id := Some i\<rparr>) xs ys"
proof (induction xs arbitrary: d)
  case Nil
  then show ?case by simp
next
  case (Cons x xs)
  let ?y = "x\<lparr>tt_id := Some (next_id (List.map_filter tt_id (trading_tips d)))\<rparr>"
  let ?d1 = "d\<lparr>trading_tips := trading_tips d @ [?y]\<rparr>"
  from Cons.prems have ins: "insert_entity d (ETradingTip x) = Inr (ETradingTip ?y, ?d1)"
    by (simp add: assign_id_def)
  from Cons.prems have "\<forall>x \<in> set xs. tt_id x = None"
    by simp
  from Cons.IH [OF this, of ?d1] obtain objs ys where
    fl: "flush ?d1 (map ETradingTip xs)
           = Inr (objs, ?d1\<lparr>trading_tips := trading_tips ?d1 @ ys\<rparr>)"
    and rel: "list_all2 (\<lambda>x y. \<exists>i. y = x\<lparr>tt_id := Some i\<rparr>) xs ys"
    by blast
  have "flush d (map ETradingTip (x # xs))
          = Inr (ETradingTip ?y # objs,
                 d\<lparr>trading_tips := trading_tips d @ ?y # ys\<rparr>)"
    using ins fl by simp
  moreover have "list_all2 (\<lambda>x y. \<exists>i. y = x\<lparr>tt_id := Some i\<rparr>) (x # xs) (?y # ys)"
    using rel by auto
  ultimately show ?case by blast
qed

lemma add_trading_tips_bulk_total:
  assumes "flush (store db) (pending db) = Inr (staged, d)"
    and "\<forall>x \<in> set tips. tt_id x = None"
  shows "\<exists>ys. add_trading_tips_bulk db tips
                = (Inr (), \<lparr>store = d\<lparr>trading_tips := trading_tips d @ ys\<rparr>,
                            pending = []\<rparr>)
           \<and> list_all2 (\<lambda>x y. \<exists>i. y = x\<lparr>tt_id := Some i\<rparr>) tips ys"
proof -
  from flush_trading_tips_total [OF assms(2), of d] obtain objs ys where
    fl: "flush d (map ETradingTip tips)
           = Inr (objs, d\<lparr>trading_tips := trading_tips d @ ys\<rparr>)"
    and rel: "list_all2 (\<lambda>x y. \<exists>i. y = x\<lparr>tt_id := Some i\<rparr>) tips ys"
    by blast
  from assms(1) fl have "add_trading_tips_bulk db tips
                = (Inr (), \<lparr>store = d\<lparr>trading_tips := trading_tips d @ ys\<rparr>,
                            pending = []\<rparr>)"
    by (simp add: add_trading_tips_bulk_def commit_def add_all_def flush_append2)
  with rel show ?thesis by blast
qed

text \<open>
  Claim C10. A bulk insert that returns has appended the records of its list to the
  table as they were given, only the key filled in: no column is uppercased. When the
  objects staged before can be flushed and the records of the list carry no key, each of
  the four bulk inserts does return, with exactly these rows appended. A stored
  sentiment record whose symbol is not in uppercase form is in no result of
  \<^verbatim>\<open>get_sentiment_data\<close> with a symbol filter, and a stored trading tip whose symbol
  is not in uppercase form is in no result of \<^verbatim>\<open>get_trading_tips\<close> with a symbol
  filter, whatever the filter: the queries compare the column with the uppercased filter.
\<close>

theorem bulk_insert_no_normalization:
  "(add_historical_prices_bulk db hps = (Inr u, db') \<longrightarrow>
      (\<exists>rows ys. list_all2 (\<lambda>x y. \<exists>i. y = x\<lparr>hp_id := Some i\<rparr>) hps ys
         \<and> historical_prices (store db') = rows @ ys))
   \<and> (add_live_prices_bulk db lps = (Inr u, db') \<longrightarrow>
      (\<exists>rows ys. list_all2 (\<lambda>x y. \<exists>i. y = x\<lparr>lp_id := Some i\<rparr>) lps ys
         \<and> live_prices (store db') = rows @ ys))
   \<and> (add_sentiment_data_bulk db sentiments = (Inr u, db') \<longrightarrow>
      (\<exists>rows ys. list_all2 (\<lambda>x y. \<exists>i. y = x\<lparr>sd_id := Some i\<rparr>) sentiments ys
         \<and> sentiment_data (store db') = rows @ ys))
   \<and> (add_trading_tips_bulk db tips = (Inr u, db') \<longrightarrow>
      (\<exists>rows ys. list_all2 (\<lambda>x y. \<exists>i. y = x\<lparr>tt_id := Some i\<rparr>) tips ys
         \<and> trading_tips (store db') = rows @ ys))
   \<and> (truthy f \<and> sd_stock_symbol r = Some s \<and> upper s \<noteq> s \<longrightarrow>
        r \<notin> set (get_sentiment_data db f start_date end_date limit))
   \<and> (truthy f \<and> upper (tt_stock_symbol t) \<noteq> tt_stock_symbol t \<longrightarrow>
        t \<notin> set (get_trading_tips db f limit page))
   \<and> (flush (store db) (pending db) = Inr (staged, d) \<and> (\<forall>x \<in> set hps. hp_id x = None) \<longrightarrow>
        (\<exists>ys. add_historical_prices_bulk db hps
               = (Inr (), \<lparr>store = d\<lparr>historical_prices := historical_prices d @ ys\<rparr>, pending = []\<rparr>)
           \<and> list_all2 (\<lambda>x y. \<exists>i. y = x\<lparr>hp_id := Some i\<rparr>) hps ys))
   \<and> (flush (store db) (pending db) = Inr (staged, d) \<and> (\<forall>x \<in> set lps. lp_id x = None) \<longrightarrow>
        (\<exists>ys. add_live_prices_bulk db lps
               = (Inr (), \<lparr>store = d\<lparr>live_prices := live_prices d @ ys\<rparr>, pending = []\<rparr>)
           \<and> list_all2 (\<lambda>x y. \<exists>i. y = x\<lparr>lp_id := Some i\<rparr>) lps ys))
   \<and> (flush (store db) (pending db) = Inr (staged, d) \<and> (\<forall>x \<in> set sentiments. sd_id x = None) \<longrightarrow>
        (\<exists>ys. add_sentiment_data_bulk db sentiments
               = (Inr (), \<lparr>store = d\<lparr>sentiment_data := sentiment_data d @ ys\<rparr>, pending = []\<rparr>)
           \<and> list_all2 (\<lambda>x y. \<exists>i. y = x\<lparr>sd_id := Some i\<rparr>) sentiments ys))
   \<and> (flush (store db) (pending db) = Inr (staged, d) \<and> (\<forall>x \<in> set tips. tt_id x = None) \<longrightarrow>
        (\<exists>ys. add_trading_tips_bulk db tips
               = (Inr (), \<lparr>store = d\<lparr>trading_tips := trading_tips d @ ys\<rparr>, pending = []\<rparr>)
           \<and> list_all2 (\<lambda>x y. \<exists>i. y = x\<lparr>tt_id := Some i\<rparr>) tips ys))"
proof -
  have h: "\<exists>rows ys. list_all2 (\<lambda>x y. \<exists>i. y = x\<lparr>hp_id := Some i\<rparr>) hps ys
         \<and> historical_prices (store db') = rows @ ys"
    if "add_historical_prices_bulk db hps = (Inr u, db')"
  proof -
    from add_historical_prices_bulk_success [OF that] obtain staged d ys where
      a: "list_all2 (\<lambda>x y. \<exists>i. y = x\<lparr>hp_id := Some i\<rparr>) hps ys"
      and b: "store db' = d\<lparr>historical_prices := historical_prices d @ ys\<rparr>"
      by blast
    from b have "historical_prices (store db') = historical_prices d @ ys"
      by simp
    with a show ?thesis by blast
  qed
  have l: "\<exists>rows ys. list_all2 (\<lambda>x y. \<exists>i. y = x\<lparr>lp_id := Some i\<rparr>) lps ys
         \<and> live_prices (store db') = rows @ ys"
    if "add_live_prices_bulk db lps = (Inr u, db')"
  proof -
    from add_live_prices_bulk_success [OF that] obtain staged d ys where
      a: "list_all2 (\<lambda>x y. \<exists>i. y = x\<lparr>lp_id := Some i\<rparr>) lps ys"
      and b: "store db' = d\<lparr>live_prices := live_prices d @ ys\<rparr>"
      by blast
    from b have "live_prices (store db') = live_prices d @ ys"
      by simp
    with a show ?thesis by blast
  qed
  have sd: "\<exists>rows ys. list_all2 (\<lambda>x y. \<exists>i. y = x\<lparr>sd_id := Some i\<rparr>) sentiments ys
         \<and> sentiment_data (store db') = rows @ ys"
    if "add_sentiment_data_bulk db sentiments = (Inr u, db')"
  proof -
    from add_sentiment_data_bulk_success [OF that] obtain staged d ys where
      a: "list_all2 (\<lambda>x y. \<exists>i. y = x\<lparr>sd_id := Some i\<rparr>) sentiments ys"
      and b: "store db' = d\<lparr>sentiment_data := sentiment_data d @ ys\<rparr>"
      by blast
    from b have "sentiment_data (store db') = sentiment_data d @ ys"
      by simp
    with a show ?thesis by blast
  qed
  have tt: "\<exists>rows ys. list_all2 (\<lambda>x y. \<exists>i. y = x\<lparr>tt_id := Some i\<rparr>) tips ys
         \<and> trading_tips (store db') = rows @ ys"
    if "add_trading_tips_bulk db tips = (Inr u, db')"
  proof -
    from add_trading_tips_bulk_success [OF that] obtain staged d ys where
      a: "list_all2 (\<lambda>x y. \<exists>i. y = x\<lparr>tt_id := Some i\<rparr>) tips ys"
      and b: "store db' = d\<lparr>trading_tips := trading_tips d @ ys\<rparr>"
      by blast
    from b have "trading_tips (store db') = trading_tips d @ ys"
      by simp
    with a show ?thesis by blast
  qed
  have qs: "r \<notin> set (get_sentiment_data db f start_date end_date limit)"
    if "truthy f" and "sd_stock_symbol r = Some s" and "upper s \<noteq> s"
  proof
    assume "r \<in> set (get_sentiment_data db f start_date end_date limit)"
    from get_sentiment_data_symbol [OF that(1) this] that(2)
    obtain g where "s = upper g" by (cases f) auto
    with that(3) show False by (simp add: upper_idem)
  qed
  have qt: "t \<notin> set (get_trading_tips db f limit page)"
    if "truthy f" and "upper (tt_stock_symbol t) \<noteq> tt_stock_symbol t"
  proof
    assume "t \<in> set (get_trading_tips db f limit page)"
    from get_trading_tips_symbol [OF that(1) this]
    obtain g where "tt_stock_symbol t = upper g" by (cases f) auto
    with that(2) show False by (simp add: upper_idem)
  qed
  show ?thesis
  proof (intro conjI impI)
    show "\<exists>rows ys. list_all2 (\<lambda>x y. \<exists>i. y = x\<lparr>hp_id := Some i\<rparr>) hps ys
         \<and> historical_prices (store db') = rows @ ys"
      if "add_historical_prices_bulk db hps = (Inr u, db')"
      using that by (rule h)
    show "\<exists>rows ys. list_all2 (\<lambda>x y. \<exists>i. y = x\<lparr>lp_id := Some i\<rparr>) lps ys
         \<and> live_prices (store db') = rows @ ys"
      if "add_live_prices_bulk db lps = (Inr u, db')"
      using that by (rule l)
    show "\<exists>rows ys. list_all2 (\<lambda>x y. \<exists>i. y = x\<lparr>sd_id := Some i\<rparr>) sentiments ys
         \<and> sentiment_data (store db') = rows @ ys"
      if "add_sentiment_data_bulk db sentiments = (Inr u, db')"
      using that by (rule sd)
    show "\<exists>rows ys. list_all2 (\<lambda>x y. \<exists>i. y = x\<lparr>tt_id := Some i\<rparr>) tips ys
         \<and> trading_tips (store db') = rows @ ys"
      if "add_trading_tips_bulk db tips = (Inr u, db')"
      using that by (rule tt)
    show "r \<notin> set (get_sentiment_data db f start_date end_date limit)"
      if "truthy f \<and> sd_stock_symbol r = Some s \<and> upper s \<noteq> s"
      using that qs by blast
    show "t \<notin> set (get_trading_tips db f limit page)"
      if "truthy f \<and> upper (tt_stock_symbol t) \<noteq> tt_stock_symbol t"
      using that qt by blast
    show "(\<exists>ys. add_historical_prices_bulk db hps
                 = (Inr (), \<lparr>store = d\<lparr>historical_prices := historical_prices d @ ys\<rparr>, pending = []\<rparr>)
             \<and> list_all2 (\<lambda>x y. \<exists>i. y = x\<lparr>hp_id := Some i\<rparr>) hps ys)"
      if "flush (store db) (pending db) = Inr (staged, d) \<and> (\<forall>x \<in> set hps. hp_id x = None)"
      using that add_historical_prices_bulk_total [of db staged d hps] by blast
    show "(\<exists>ys. add_live_prices_bulk db lps
                 = (Inr (), \<lparr>store = d\<lparr>live_prices := live_prices d @ ys\<rparr>, pending = []\<rparr>)
             \<and> list_all2 (\<lambda>x y. \<exists>i. y = x\<lparr>lp_id := Some i\<rparr>) lps ys)"
      if "flush (store db) (pending db) = Inr (staged, d) \<and> (\<forall>x \<in> set lps. lp_id x = None)"
      using that add_live_prices_bulk_total [of db staged d lps] by blast
    show "(\<exists>ys. add_sentiment_data_bulk db sentiments
                 = (Inr (), \<lparr>store = d\<lparr>sentiment_data := sentiment_data d @ ys\<rparr>, pending = []\<rparr>)
             \<and> list_all2 (\<lambda>x y. \<exists>i. y = x\<lparr>sd_id := Some i\<rparr>) sentiments ys)"
      if "flush (store db) (pending db) = Inr (staged, d) \<and> (\<forall>x \<in> set sentiments. sd_id x = None)"
      using that add_sentiment_data_bulk_total [of db staged d sentiments] by blast
    show "(\<exists>ys. add_trading_tips_bulk db tips
                 = (Inr (), \<lparr>store = d\<lparr>trading_tips := trading_tips d @ ys\<rparr>, pending = []\<rparr>)
             \<and> list_all2 (\<lambda>x y. \<exists>i. y = x\<lparr>tt_id := Some i\<rparr>) tips ys)"
      if "flush (store db) (pending db) = Inr (staged, d) \<and> (\<forall>x \<in> set tips. tt_id x = None)"
      using that add_trading_tips_bulk_total [of db staged d tips] by blast
  qed
qed

text \<open>
  On a fresh database each of the four bulk inserts stores a record given without a key
  as it was given, with the key 1. A sentiment record and a trading tip with the
  lowercase symbol \<^verbatim>\<open>infy\<close> are stored with that symbol; the queries filtered by
  \<^verbatim>\<open>infy\<close> look for \<^verbatim>\<open>INFY\<close> and do not return them.
\<close>

theorem bulk_insert_no_normalization_witness:
  "add_historical_prices_bulk empty_session
      [\<lparr>hp_id = None, hp_stock_id = 1, hp_date = 2, hp_open = 1, hp_high = 2, hp_low = 1,
        hp_close = 2, hp_volume = 10\<rparr>]
     = (Inr (), \<lparr>store = empty_database\<lparr>historical_prices :=
         [\<lparr>hp_id = Some 1, hp_stock_id = 1, hp_date = 2, hp_open = 1, hp_high = 2, hp_low = 1,
        hp_close = 2, hp_volume = 10\<rparr>]\<rparr>,
        pending = []\<rparr>)
   \<and> (\<exists>i. add_historical_prices_bulk empty_session
      [\<lparr>hp_id = None, hp_stock_id = 1, hp_date = 2, hp_open = 1, hp_high = 2, hp_low = 1,
        hp_close = 2, hp_volume = 10\<rparr>]
     = (Inr (), \<lparr>store = empty_database\<lparr>historical_prices :=
         [\<lparr>hp_id = None, hp_stock_id = 1, hp_date = 2, hp_open = 1, hp_high = 2, hp_low = 1,
        hp_close = 2, hp_volume = 10\<rparr>\<lparr>hp_id := Some i\<rparr>]\<rparr>,
        pending = []\<rparr>))
   \<and> add_live_prices_bulk empty_session
      [\<lparr>lp_id = None, lp_stock_id = 1, lp_timestamp = 2, lp_price = 2, lp_volume = 10\<rparr>]
     = (Inr (), \<lparr>store = empty_database\<lparr>live_prices :=
         [\<lparr>lp_id = Some 1, lp_stock_id = 1, lp_timestamp = 2, lp_price = 2, lp_volume = 10\<rparr>]\<rparr>,
        pending = []\<rparr>)
   \<and> (\<exists>i. add_live_prices_bulk empty_session
      [\<lparr>lp_id = None, lp_stock_id = 1, lp_timestamp = 2, lp_price = 2, lp_volume = 10\<rparr>]
     = (Inr (), \<lparr>store = empty_database\<lparr>live_prices :=
         [\<lparr>lp_id = None, lp_stock_id = 1, lp_timestamp = 2, lp_price = 2, lp_volume = 10\<rparr>\<lparr>lp_id := Some i\<rparr>]\<rparr>,
        pending = []\<rparr>))
   \<and> add_sentiment_data_bulk empty_session
      [\<lparr>sd_id = None, sd_source = ''NewsAPI'', sd_timestamp = 2, sd_text = None,
        sd_sentiment_score = 0, sd_stock_symbol = Some ''infy''\<rparr>]
     = (Inr (), \<lparr>store = empty_database\<lparr>sentiment_data :=
         [\<lparr>sd_id = Some 1, sd_source = ''NewsAPI'', sd_timestamp = 2, sd_text = None,
        sd_sentiment_score = 0, sd_stock_symbol = Some ''infy''\<rparr>]\<rparr>,
        pending = []\<rparr>)
   \<and> (\<exists>i. add_sentiment_data_bulk empty_session
      [\<lparr>sd_id = None, sd_source = ''NewsAPI'', sd_timestamp = 2, sd_text = None,
        sd_sentiment_score = 0, sd_stock_symbol = Some ''infy''\<rparr>]
     = (Inr (), \<lparr>store = empty_database\<lparr>sentiment_data :=
         [\<lparr>sd_id = None, sd_source = ''NewsAPI'', sd_timestamp = 2, sd_text = None,
        sd_sentiment_score = 0, sd_stock_symbol = Some ''infy''\<rparr>\<lparr>sd_id := Some i\<rparr>]\<rparr>,
        pending = []\<rparr>))
   \<and> add_trading_tips_bulk empty_session
      [\<lparr>tt_id = None, tt_timestamp = 2, tt_stock_symbol = ''infy'', tt_tip_type = SWING,
        tt_action = BUY, tt_reason = ''r'', tt_confidence_score = None\<rparr>]
     = (Inr (), \<lparr>store = empty_database\<lparr>trading_tips :=
         [\<lparr>tt_id = Some 1, tt_timestamp = 2, tt_stock_symbol = ''infy'', tt_tip_type = SWING,
        tt_action = BUY, tt_reason = ''r'', tt_confidence_score = None\<rparr>]\<rparr>,
        pending = []\<rparr>)
   \<and> (\<exists>i. add_trading_tips_bulk empty_session
      [\<lparr>tt_id = None, tt_timestamp = 2, tt_stock_symbol = ''infy'', tt_tip_type = SWING,
        tt_action = BUY, tt_reason = ''r'', tt_confidence_score = None\<rparr>]
     = (Inr (), \<lparr>store = empty_database\<lparr>trading_tips :=
         [\<lparr>tt_id = None, tt_timestamp = 2, tt_stock_symbol = ''infy'', tt_tip_type = SWING,
        tt_action = BUY, tt_reason = ''r'', tt_confidence_score = None\<rparr>\<lparr>tt_id := Some i\<rparr>]\<rparr>,
        pending = []\<rparr>))
   \<and> truthy (Some ''infy'')
   \<and> upper ''infy'' \<noteq> ''infy''
   \<and> \<lparr>sd_id = Some 1, sd_source = ''NewsAPI'', sd_timestamp = 2, sd_text = None,
        sd_sentiment_score = 0, sd_stock_symbol = Some ''infy''\<rparr>
       \<notin> set (get_sentiment_data
       \<lparr>store = empty_database\<lparr>sentiment_data :=
          [\<lparr>sd_id = Some 1, sd_source = ''NewsAPI'', sd_timestamp = 2, sd_text = None,
        sd_sentiment_score = 0, sd_stock_symbol = Some ''infy''\<rparr>]\<rparr>,
        pending = []\<rparr> (Some ''infy'') None None 100)
   \<and> \<lparr>tt_id = Some 1, tt_timestamp = 2, tt_stock_symbol = ''infy'', tt_tip_type = SWING,
        tt_action = BUY, tt_reason = ''r'', tt_confidence_score = None\<rparr>
       \<notin> set (get_trading_tips
       \<lparr>store = empty_database\<lparr>trading_tips :=
          [\<lparr>tt_id = Some 1, tt_timestamp = 2, tt_stock_symbol = ''infy'', tt_tip_type = SWING,
        tt_action = BUY, tt_reason = ''r'', tt_confidence_score = None\<rparr>]\<rparr>,
        pending = []\<rparr> (Some ''infy'') 20 1)"
proof -
  have fl: "flush (store empty_session) (pending empty_session) = Inr ([], empty_database)"
    by (simp add: empty_session_def)
  have g0: "add_historical_prices_bulk empty_session
      [\<lparr>hp_id = None, hp_stock_id = 1, hp_date = 2, hp_open = 1, hp_high = 2, hp_low = 1,
        hp_close = 2, hp_volume = 10\<rparr>]
     = (Inr (), \<lparr>store = empty_database\<lparr>historical_prices :=
         [\<lparr>hp_id = Some 1, hp_stock_id = 1, hp_date = 2, hp_open = 1, hp_high = 2, hp_low = 1,
        hp_close = 2, hp_volume = 10\<rparr>]\<rparr>,
        pending = []\<rparr>)"
    by (simp add: add_historical_prices_bulk_def add_live_prices_bulk_def add_sentiment_data_bulk_def
        add_trading_tips_bulk_def add_all_def commit_def assign_id_def next_id_def
        empty_session_def empty_database_def)
  have k0: "\<forall>x \<in> set [\<lparr>hp_id = None, hp_stock_id = 1, hp_date = 2, hp_open = 1, hp_high = 2, hp_low = 1,
        hp_close = 2, hp_volume = 10\<rparr>]. hp_id x = None"
    by simp
  from bulk_insert_no_normalization [where db = empty_session and staged = "[]"
      and d = empty_database and hps = "[\<lparr>hp_id = None, hp_stock_id = 1, hp_date = 2, hp_open = 1, hp_high = 2, hp_low = 1,
        hp_close = 2, hp_volume = 10\<rparr>]"] fl k0
  obtain ys0 where a0: "add_historical_prices_bulk empty_session
      [\<lparr>hp_id = None, hp_stock_id = 1, hp_date = 2, hp_open = 1, hp_high = 2, hp_low = 1,
        hp_close = 2, hp_volume = 10\<rparr>]
     = (Inr (), \<lparr>store = empty_database\<lparr>historical_prices := historical_prices empty_database @ ys0\<rparr>,
        pending = []\<rparr>)"
    and r0: "list_all2 (\<lambda>x y. \<exists>i. y = x\<lparr>hp_id := Some i\<rparr>)
      [\<lparr>hp_id = None, hp_stock_id = 1, hp_date = 2, hp_open = 1, hp_high = 2, hp_low = 1,
        hp_close = 2, hp_volume = 10\<rparr>] ys0"
    by blast
  from r0 obtain i0 where "ys0 = [\<lparr>hp_id = None, hp_stock_id = 1, hp_date = 2, hp_open = 1, hp_high = 2, hp_low = 1,
        hp_close = 2, hp_volume = 10\<rparr>\<lparr>hp_id := Some i0\<rparr>]"
    by (auto simp: list_all2_Cons1)
  with a0 have x0: "(\<exists>i. add_historical_prices_bulk empty_session
      [\<lparr>hp_id = None, hp_stock_id = 1, hp_date = 2, hp_open = 1, hp_high = 2, hp_low = 1,
        hp_close = 2, hp_volume = 10\<rparr>]
     = (Inr (), \<lparr>store = empty_database\<lparr>historical_prices :=
         [\<lparr>hp_id = None, hp_stock_id = 1, hp_date = 2, hp_open = 1, hp_high = 2, hp_low = 1,
        hp_close = 2, hp_volume = 10\<rparr>\<lparr>hp_id := Some i\<rparr>]\<rparr>,
        pending = []\<rparr>))"
    by (simp add: empty_database_def)
  have g1: "add_live_prices_bulk empty_session
      [\<lparr>lp_id = None, lp_stock_id = 1, lp_timestamp = 2, lp_price = 2, lp_volume = 10\<rparr>]
     = (Inr (), \<lparr>store = empty_database\<lparr>live_prices :=
         [\<lparr>lp_id = Some 1, lp_stock_id = 1, lp_timestamp = 2, lp_price = 2, lp_volume = 10\<rparr>]\<rparr>,
        pending = []\<rparr>)"
    by (simp add: add_historical_prices_bulk_def add_live_prices_bulk_def add_sentiment_data_bulk_def
        add_trading_tips_bulk_def add_all_def commit_def assign_id_def next_id_def
        empty_session_def empty_database_def)
  have k1: "\<forall>x \<in> set [\<lparr>lp_id = None, lp_stock_id = 1, lp_timestamp = 2, lp_price = 2, lp_volume = 10\<rparr>]. lp_id x = None"
    by simp
  from bulk_insert_no_normalization [where db = empty_session and staged = "[]"
      and d = empty_database and lps = "[\<lparr>lp_id = None, lp_stock_id = 1, lp_timestamp = 2, lp_price = 2, lp_volume = 10\<rparr>]"] fl k1
  obtain ys1 where a1: "add_live_prices_bulk empty_session
      [\<lparr>lp_id = None, lp_stock_id = 1, lp_timestamp = 2, lp_price = 2, lp_volume = 10\<rparr>]
     = (Inr (), \<lparr>store = empty_database\<lparr>live_prices := live_prices empty_database @ ys1\<rparr>,
        pending = []\<rparr>)"
    and r1: "list_all2 (\<lambda>x y. \<exists>i. y = x\<lparr>lp_id := Some i\<rparr>)
      [\<lparr>lp_id = None, lp_stock_id = 1, lp_timestamp = 2, lp_price = 2, lp_volume = 10\<rparr>] ys1"
    by blast
  from r1 obtain i1 where "ys1 = [\<lparr>lp_id = None, lp_stock_id = 1, lp_timestamp = 2, lp_price = 2, lp_volume = 10\<rparr>\<lparr>lp_id := Some i1\<rparr>]"
    by (auto simp: list_all2_Cons1)
  with a1 have x1: "(\<exists>i. add_live_prices_bulk empty_session
      [\<lparr>lp_id = None, lp_stock_id = 1, lp_timestamp = 2, lp_price = 2, lp_volume = 10\<rparr>]
     = (Inr (), \<lparr>store = empty_database\<lparr>live_prices :=
         [\<lparr>lp_id = None, lp_stock_id = 1, lp_timestamp = 2, lp_price = 2, lp_volume = 10\<rparr>\<lparr>lp_id := Some i\<rparr>]\<rparr>,
        pending = []\<rparr>))"
    by (simp add: empty_database_def)
  have g2: "add_sentiment_data_bulk empty_session
      [\<lparr>sd_id = None, sd_source = ''NewsAPI'', sd_timestamp = 2, sd_text = None,
        sd_sentiment_score = 0, sd_stock_symbol = Some ''infy''\<rparr>]
     = (Inr (), \<lparr>store = empty_database\<lparr>sentiment_data :=
         [\<lparr>sd_id = Some 1, sd_source = ''NewsAPI'', sd_timestamp = 2, sd_text = None,
        sd_sentiment_score = 0, sd_stock_symbol = Some ''infy''\<rparr>]\<rparr>,
        pending = []\<rparr>)"
    by (simp add: add_historical_prices_bulk_def add_live_prices_bulk_def add_sentiment_data_bulk_def
        add_trading_tips_bulk_def add_all_def commit_def assign_id_def next_id_def
        empty_session_def empty_database_def)
  have k2: "\<forall>x \<in> set [\<lparr>sd_id = None, sd_source = ''NewsAPI'', sd_timestamp = 2, sd_text = None,
        sd_sentiment_score = 0, sd_stock_symbol = Some ''infy''\<rparr>]. sd_id x = None"
    by simp
  from bulk_insert_no_normalization [where db = empty_session and staged = "[]"
      and d = empty_database and sentiments = "[\<lparr>sd_id = None, sd_source = ''NewsAPI'', sd_timestamp = 2, sd_text = None,
        sd_sentiment_score = 0, sd_stock_symbol = Some ''infy''\<rparr>]"] fl k2
  obtain ys2 where a2: "add_sentiment_data_bulk empty_session
      [\<lparr>sd_id = None, sd_source = ''NewsAPI'', sd_timestamp = 2, sd_text = None,
        sd_sentiment_score = 0, sd_stock_symbol = Some ''infy''\<rparr>]
     = (Inr (), \<lparr>store = empty_database\<lparr>sentiment_data := sentiment_data empty_database @ ys2\<rparr>,
        pending = []\<rparr>)"
    and r2: "list_all2 (\<lambda>x y. \<exists>i. y = x\<lparr>sd_id := Some i\<rparr>)
      [\<lparr>sd_id = None, sd_source = ''NewsAPI'', sd_timestamp = 2, sd_text = None,
        sd_sentiment_score = 0, sd_stock_symbol = Some ''infy''\<rparr>] ys2"
    by blast
  from r2 obtain i2 where "ys2 = [\<lparr>sd_id = None, sd_source = ''NewsAPI'', sd_timestamp = 2, sd_text = None,
        sd_sentiment_score = 0, sd_stock_symbol = Some ''infy''\<rparr>\<lparr>sd_id := Some i2\<rparr>]"
    by (auto simp: list_all2_Cons1)
  with a2 have x2: "(\<exists>i. add_sentiment_data_bulk empty_session
      [\<lparr>sd_id = None, sd_source = ''NewsAPI'', sd_timestamp = 2, sd_text = None,
        sd_sentiment_score = 0, sd_stock_symbol = Some ''infy''\<rparr>]
     = (Inr (), \<lparr>store = empty_database\<lparr>sentiment_data :=
         [\<lparr>sd_id = None, sd_source = ''NewsAPI'', sd_timestamp = 2, sd_text = None,
        sd_sentiment_score = 0, sd_stock_symbol = Some ''infy''\<rparr>\<lparr>sd_id := Some i\<rparr>]\<rparr>,
        pending = []\<rparr>))"
    by (simp add: empty_database_def)
  have g3: "add_trading_tips_bulk empty_session
      [\<lparr>tt_id = None, tt_timestamp = 2, tt_stock_symbol = ''infy'', tt_tip_type = SWING,
        tt_action = BUY, tt_reason = ''r'', tt_confidence_score = None\<rparr>]
     = (Inr (), \<lparr>store = empty_database\<lparr>trading_tips :=
         [\<lparr>tt_id = Some 1, tt_timestamp = 2, tt_stock_symbol = ''infy'', tt_tip_type = SWING,
        tt_action = BUY, tt_reason = ''r'', tt_confidence_score = None\<rparr>]\<rparr>,
        pending = []\<rparr>)"
    by (simp add: add_historical_prices_bulk_def add_live_prices_bulk_def add_sentiment_data_bulk_def
        add_trading_tips_bulk_def add_all_def commit_def assign_id_def next_id_def
        empty_session_def empty_database_def)
  have k3: "\<forall>x \<in> set [\<lparr>tt_id = None, tt_timestamp = 2, tt_stock_symbol = ''infy'', tt_tip_type = SWING,
        tt_action = BUY, tt_reason = ''r'', tt_confidence_score = None\<rparr>]. tt_id x = None"
    by simp
  from bulk_insert_no_normalization [where db = empty_session and staged = "[]"
      and d = empty_database and tips = "[\<lparr>tt_id = None, tt_timestamp = 2, tt_stock_symbol = ''infy'', tt_tip_type = SWING,
        tt_action = BUY, tt_reason = ''r'', tt_confidence_score = None\<rparr>]"] fl k3
  obtain ys3 where a3: "add_trading_tips_bulk empty_session
      [\<lparr>tt_id = None, tt_timestamp = 2, tt_stock_symbol = ''infy'', tt_tip_type = SWING,
        tt_action = BUY, tt_reason = ''r'', tt_confidence_score = None\<rparr>]
     = (Inr (), \<lparr>store = empty_database\<lparr>trading_tips := trading_tips empty_database @ ys3\<rparr>,
        pending = []\<rparr>)"
    and r3: "list_all2 (\<lambda>x y. \<exists>i. y = x\<lparr>tt_id := Some i\<rparr>)
      [\<lparr>tt_id = None, tt_timestamp = 2, tt_stock_symbol = ''infy'', tt_tip_type = SWING,
        tt_action = BUY, tt_reason = ''r'', tt_confidence_score = None\<rparr>] ys3"
    by blast
  from r3 obtain i3 where "ys3 = [\<lparr>tt_id = None, tt_timestamp = 2, tt_stock_symbol = ''infy'', tt_tip_type = SWING,
        tt_action = BUY, tt_reason = ''r'', tt_confidence_score = None\<rparr>\<lparr>tt_id := Some i3\<rparr>]"
    by (auto simp: list_all2_Cons1)
  with a3 have x3: "(\<exists>i. add_trading_tips_bulk empty_session
      [\<lparr>tt_id = None, tt_timestamp = 2, tt_stock_symbol = ''infy'', tt_tip_type = SWING,
        tt_action = BUY, tt_reason = ''r'', tt_confidence_score = None\<rparr>]
     = (Inr (), \<lparr>store = empty_database\<lparr>trading_tips :=
         [\<lparr>tt_id = None, tt_timestamp = 2, tt_stock_symbol = ''infy'', tt_tip_type = SWING,
        tt_action = BUY, tt_reason = ''r'', tt_confidence_score = None\<rparr>\<lparr>tt_id := Some i\<rparr>]\<rparr>,
        pending = []\<rparr>))"
    by (simp add: empty_database_def)
  have f: "truthy (Some ''infy'')"
    by (simp add: truthy_def)
  have "upper ''infy'' = ''INFY''"
    by code_simp
  then have u: "upper ''infy'' \<noteq> ''infy''"
    by simp
  from bulk_insert_no_normalization [where f = "Some ''infy''" and s = "''infy''"
      and r = "\<lparr>sd_id = Some 1, sd_source = ''NewsAPI'', sd_timestamp = 2, sd_text = None,
        sd_sentiment_score = 0, sd_stock_symbol = Some ''infy''\<rparr>"
      and db = "\<lparr>store = empty_database\<lparr>sentiment_data :=
          [\<lparr>sd_id = Some 1, sd_source = ''NewsAPI'', sd_timestamp = 2, sd_text = None,
        sd_sentiment_score = 0, sd_stock_symbol = Some ''infy''\<rparr>]\<rparr>,
        pending = []\<rparr>"
      and start_date = None and end_date = None and limit = 100] f u
  have qs: "\<lparr>sd_id = Some 1, sd_source = ''NewsAPI'', sd_timestamp = 2, sd_text = None,
        sd_sentiment_score = 0, sd_stock_symbol = Some ''infy''\<rparr>
       \<notin> set (get_sentiment_data
       \<lparr>store = empty_database\<lparr>sentiment_data :=
          [\<lparr>sd_id = Some 1, sd_source = ''NewsAPI'', sd_timestamp = 2, sd_text = None,
        sd_sentiment_score = 0, sd_stock_symbol = Some ''infy''\<rparr>]\<rparr>,
        pending = []\<rparr> (Some ''infy'') None None 100)"
    by simp
  from bulk_insert_no_normalization [where f = "Some ''infy''"
      and t = "\<lparr>tt_id = Some 1, tt_timestamp = 2, tt_stock_symbol = ''infy'', tt_tip_type = SWING,
        tt_action = BUY, tt_reason = ''r'', tt_confidence_score = None\<rparr>"
      and db = "\<lparr>store = empty_database\<lparr>trading_tips :=
          [\<lparr>tt_id = Some 1, tt_timestamp = 2, tt_stock_symbol = ''infy'', tt_tip_type = SWING,
        tt_action = BUY, tt_reason = ''r'', tt_confidence_score = None\<rparr>]\<rparr>,
        pending = []\<rparr>"
      and limit = 20 and page = 1] f u
  have qt: "\<lparr>tt_id = Some 1, tt_timestamp = 2, tt_stock_symbol = ''infy'', tt_tip_type = SWING,
        tt_action = BUY, tt_reason = ''r'', tt_confidence_score = None\<rparr>
       \<notin> set (get_trading_tips
       \<lparr>store = empty_database\<lparr>trading_tips :=
          [\<lparr>tt_id = Some 1, tt_timestamp = 2, tt_stock_symbol = ''infy'', tt_tip_type = SWING,
        tt_action = BUY, tt_reason = ''r'', tt_confidence_score = None\<rparr>]\<rparr>,
        pending = []\<rparr> (Some ''infy'') 20 1)"
    by simp
  from g0 x0 g1 x1 g2 x2 g3 x3 f u qs qt show ?thesis
    by (intro conjI)
qed

end
